theory Spec2Isabelle
  imports Main "HOL-Library.Word"
begin

unbundle bit_operations_syntax

section \<open>Key material of dkeyczar (keydata.go)\<close>

text \<open>
  A shallow embedding of \<^verbatim>\<open>keydata.go\<close>: the HMAC-SHA1 key, the AES-CBC key with its
  bundled HMAC key, the DSA and RSA key pairs, and the loaders that build a
  version map from serialized records.

  Go's \<^verbatim>\<open>[]byte\<close> is a list of 8-bit words. A Go function can end in three ways,
  and the model keeps them apart: it returns a value with a nil error, it returns
  a non-nil error (\<^verbatim>\<open>return nil, err\<close>), or it panics (a slice or index out of range).
\<close>

type_synonym byte = "8 word"
type_synonym bytes = "byte list"

datatype error =
    ErrInvalidKeySize
  | ErrBase64Decoding
  | ErrShortCiphertext
  | ErrInvalidSignature
  | KeySizeError nat        \<comment> \<open>\<^verbatim>\<open>aes.KeySizeError\<close>, returned by \<^verbatim>\<open>aes.NewCipher\<close>\<close>
  | ExternalError string    \<comment> \<open>an error value produced outside this file (key reader, OAEP)\<close>

datatype 'a result =
    Returned 'a             \<comment> \<open>\<^verbatim>\<open>return v, nil\<close>\<close>
  | Failed error            \<comment> \<open>\<^verbatim>\<open>return nil, err\<close>\<close>
  | Panic                   \<comment> \<open>run-time panic: nothing is returned\<close>

subsection \<open>Constants and structs of the source\<close>

definition hmacSigLength :: nat where
  "hmacSigLength = 20"

definition aes_BlockSize :: nat where
  "aes_BlockSize = 16"

record hmacKey =
  hmacKey_key :: bytes

record aesKey =
  aesKey_key :: bytes
  aesKey_hmacKey :: hmacKey

record hmacKeyJSON =
  HmacKeyString :: string
  hmac_Size :: nat

type_synonym cipherMode = string

record aesKeyJSON =
  AesKeyString :: string
  aes_Size :: nat
  HmacKey :: hmacKeyJSON
  Mode :: cipherMode

text \<open>
  \<^verbatim>\<open>dsa.PublicKey\<close> is \<^verbatim>\<open>{Parameters{P, Q, G}, Y}\<close> and \<^verbatim>\<open>dsa.PrivateKey\<close> is
  \<^verbatim>\<open>{PublicKey, X}\<close>; \<^verbatim>\<open>rsa.PublicKey\<close> is \<^verbatim>\<open>{N, E}\<close> with \<^verbatim>\<open>E\<close> an \<^verbatim>\<open>int\<close>, and
  \<^verbatim>\<open>rsa.PrivateKey\<close> is \<^verbatim>\<open>{PublicKey, D, Primes, Precomputed{Dp, Dq, Qinv}}\<close>.
  A \<^verbatim>\<open>*big.Int\<close> is an unbounded integer.
\<close>

record dsa_PublicKey =
  dsa_P :: int
  dsa_Q :: int
  dsa_G :: int
  dsa_Y :: int

record dsa_PrivateKey = dsa_PublicKey +
  dsa_X :: int

record dsaPublicKey =
  dsaPublicKey_key :: dsa_PublicKey

record dsaKey =
  dsaKey_key :: dsa_PrivateKey
  dsaKey_publicKey :: dsaPublicKey

record dsaPublicKeyJSON =
  dsa_json_Q :: string
  dsa_json_P :: string
  dsa_json_Y :: string
  dsa_json_G :: string
  dsa_pub_Size :: nat

record dsaKeyJSON =
  dsa_json_PublicKey :: dsaPublicKeyJSON
  dsa_Size :: nat
  dsa_json_X :: string

record rsa_PublicKey =
  rsa_N :: int
  rsa_E :: int

record rsa_PrivateKey = rsa_PublicKey +
  rsa_D :: int
  rsa_Primes :: "int list"
  rsa_Dp :: int
  rsa_Dq :: int
  rsa_Qinv :: int

record rsaPublicKey =
  rsaPublicKey_key :: rsa_PublicKey

record rsaKey =
  rsaKey_key :: rsa_PrivateKey
  rsaKey_publicKey :: rsaPublicKey

record rsaPublicKeyJSON =
  Modulus :: string
  PublicExponent :: string
  rsa_pub_Size :: nat

record rsaKeyJSON =
  CrtCoefficient :: string
  PrimeExponentP :: string
  PrimeExponentQ :: string
  PrimeP :: string
  PrimeQ :: string
  PrivateExponent :: string
  rsa_json_PublicKey :: rsaPublicKeyJSON
  rsa_Size :: nat

text \<open>The values a \<^verbatim>\<open>map[int]keyIDer\<close> holds: one constructor per implementing type.\<close>

datatype keyIDer =
    AesKey aesKey
  | HmacKey_of hmacKey
  | DsaPublicKey dsaPublicKey
  | DsaKey dsaKey
  | RsaPublicKey rsaPublicKey
  | RsaKey rsaKey

datatype keyType = ktAES | ktHMAC_SHA1 | ktDSA_PRIV | ktDSA_PUB | ktRSA_PRIV | ktRSA_PUB

record keyVersion =
  VersionNumber :: int

record keyMeta =
  Versions :: "keyVersion list"

type_synonym KeyReader = "int \<Rightarrow> error + string"

subsection \<open>What the file takes from elsewhere\<close>

text \<open>
  \<^verbatim>\<open>keydata.go\<close> calls into Go's standard library and into other files of the
  package that are not part of the sources at hand. They are parameters of
  the model, collected in one record:
  \<^item> \<open>kzHeaderLength\<close>, \<open>makeHeader\<close> (applied to the key's \<^verbatim>\<open>KeyID()\<close>, the only
    method of a \<^verbatim>\<open>keyIDer\<close>), \<open>isAcceptableSize\<close>, \<open>decodeWeb64String\<close> (its error value
    is discarded by every caller, so \<open>None\<close> stands for failure);
  \<^item> \<open>sha1\<close>: the digest of all bytes written to a \<^verbatim>\<open>sha1.New()\<close> hash;
    \<open>hmac_sha1 k m\<close>: the digest of \<^verbatim>\<open>hmac.NewSHA1(k)\<close> after writing \<open>m\<close>;
  \<^item> \<open>aes_encrypt k\<close> and \<open>aes_decrypt k\<close>: the block operations of the cipher
    \<^verbatim>\<open>aes.NewCipher(k)\<close>;
  \<^item> \<open>rsa_DecryptOAEP\<close>: \<^verbatim>\<open>rsa.DecryptOAEP\<close> with SHA-1 and no label;
  \<^item> one \<^verbatim>\<open>json.Unmarshal\<close> per record type. The source ignores its error and reads
    the record struct afterwards. The struct is reached through a pointer that
    \<^verbatim>\<open>Unmarshal\<close> sets to nil when the text is the JSON literal \<^verbatim>\<open>null\<close> (\<open>None\<close>);
    reading a field of it then panics.
\<close>

record env =
  kzHeaderLength :: nat
  makeHeader :: "bytes \<Rightarrow> bytes"
  isAcceptableSize :: "keyType \<Rightarrow> nat \<Rightarrow> bool"
  decodeWeb64String :: "string \<Rightarrow> bytes option"
  sha1 :: "bytes \<Rightarrow> bytes"
  hmac_sha1 :: "bytes \<Rightarrow> bytes \<Rightarrow> bytes"
  aes_encrypt :: "bytes \<Rightarrow> bytes \<Rightarrow> bytes"
  aes_decrypt :: "bytes \<Rightarrow> bytes \<Rightarrow> bytes"
  rsa_DecryptOAEP :: "rsa_PrivateKey \<Rightarrow> bytes \<Rightarrow> bytes result"
  unmarshal_hmac :: "string \<Rightarrow> hmacKeyJSON option"
  unmarshal_aes :: "string \<Rightarrow> aesKeyJSON option"
  unmarshal_dsa_pub :: "string \<Rightarrow> dsaPublicKeyJSON option"
  unmarshal_dsa :: "string \<Rightarrow> dsaKeyJSON option"
  unmarshal_rsa_pub :: "string \<Rightarrow> rsaPublicKeyJSON option"
  unmarshal_rsa :: "string \<Rightarrow> rsaKeyJSON option"

text \<open>
  The contracts of the library that the theorems below name as hypotheses when
  they need them: an HMAC-SHA1 tag has \<^verbatim>\<open>sha1.Size = 20\<close> bytes; for a key the
  cipher accepts, block encryption and decryption map 16-byte blocks to 16-byte
  blocks and decryption undoes encryption; a header has \<open>kzHeaderLength\<close> bytes.
\<close>

definition hmac_size_ok :: "env \<Rightarrow> bool" where
  "hmac_size_ok E \<longleftrightarrow> (\<forall>k m. length (hmac_sha1 E k m) = 20)"

definition aes_blocks_ok :: "env \<Rightarrow> bytes \<Rightarrow> bool" where
  "aes_blocks_ok E k \<longleftrightarrow>
     (\<forall>b. length b = 16 \<longrightarrow>
        length (aes_encrypt E k b) = 16 \<and> aes_decrypt E k (aes_encrypt E k b) = b)"

definition header_size_ok :: "env \<Rightarrow> bool" where
  "header_size_ok E \<longleftrightarrow> (\<forall>kid. length (makeHeader E kid) = kzHeaderLength E)"

subsection \<open>Slices, hashes and big integers\<close>

text \<open>
  \<open>slice xs lo hi\<close> is \<^verbatim>\<open>xs[lo:hi]\<close>, which panics unless \<open>lo \<le> hi \<le> len(xs)\<close>
  (none of the slices below has spare capacity that would matter).
\<close>

definition slice :: "'a list \<Rightarrow> nat \<Rightarrow> nat \<Rightarrow> 'a list option" where
  "slice xs lo hi = (if lo \<le> hi \<and> hi \<le> length xs then Some (take (hi - lo) (drop lo xs)) else None)"

text \<open>\<^verbatim>\<open>binary.Write(h, binary.BigEndian, uint32(n))\<close> writes these four bytes.\<close>

definition be32 :: "32 word \<Rightarrow> bytes" where
  "be32 w = [ucast (drop_bit 24 w), ucast (drop_bit 16 w), ucast (drop_bit 8 w), ucast w]"

text \<open>\<^verbatim>\<open>uint32(len(b))\<close>: the conversion keeps the low 32 bits.\<close>

definition uint32_len :: "'a list \<Rightarrow> 32 word" where
  "uint32_len b = of_nat (length b)"

text \<open>
  A running hash is the list of bytes written to it so far; \<^verbatim>\<open>h.Sum(nil)\<close>
  digests them.
\<close>

type_synonym hash = bytes

definition sha1_New :: hash where
  "sha1_New = []"

definition hash_Write :: "hash \<Rightarrow> bytes \<Rightarrow> hash" where
  "hash_Write h b = h @ b"

definition binary_Write_uint32 :: "hash \<Rightarrow> 32 word \<Rightarrow> hash" where
  "binary_Write_uint32 h w = hash_Write h (be32 w)"

definition hash_Sum :: "env \<Rightarrow> hash \<Rightarrow> bytes" where
  "hash_Sum E h = sha1 E h"

text \<open>
  \<^verbatim>\<open>x.Bytes()\<close>: the big-endian bytes of \<open>\<bar>x\<bar>\<close> with no leading zero;
  \<^verbatim>\<open>big.NewInt(0).SetBytes(b)\<close>: the unsigned big-endian value of \<open>b\<close>.
\<close>

fun nat_Bytes :: "nat \<Rightarrow> bytes" where
  "nat_Bytes n = (if n = 0 then [] else nat_Bytes (n div 256) @ [of_nat (n mod 256)])"

declare nat_Bytes.simps [simp del]

definition big_Bytes :: "int \<Rightarrow> bytes" where
  "big_Bytes x = nat_Bytes (nat \<bar>x\<bar>)"

definition SetBytes :: "bytes \<Rightarrow> int" where
  "SetBytes b = int (foldl (\<lambda>a x. a * 256 + unat x) 0 b)"

text \<open>\<^verbatim>\<open>int(x.Int64())\<close> for a non-negative \<open>x\<close>: the low 64 bits, read as signed.\<close>

definition Int64 :: "int \<Rightarrow> int" where
  "Int64 x = sint (word_of_int x :: 64 word)"

subsection \<open>Padding\<close>

text \<open>
  Modelled from the spec: \<^verbatim>\<open>pkcs5pad\<close> lives in a file of the package that is not
  among the sources. Section 4.2: "PKCS#5/7 to the cipher's block size on
  encrypt", that is, \<open>n\<close> bytes of value \<open>n\<close> are appended, where
  \<open>n = blocksize - len(data) % blocksize\<close>, a whole block when the data is aligned.
\<close>

definition pkcs5pad :: "bytes \<Rightarrow> nat \<Rightarrow> bytes" where
  "pkcs5pad data blocksize =
     (let pad = blocksize - length data mod blocksize
      in data @ replicate pad (of_nat pad))"

text \<open>
  Modelled from the spec: \<^verbatim>\<open>pkcs5unpad\<close> lives in a file of the package that is not
  among the sources. The call in \<^verbatim>\<open>aesKey.Decrypt\<close> fixes its type: bytes in,
  bytes out, no error value. Section 4.2 says the padding is stripped on
  decrypt; section 9 says that "the source's padding-removal step has no
  explicit handling for malformed padding". So the last byte gives the number of
  bytes to drop, and the bytes dropped are not inspected. Dropping more bytes
  than there are is a slice out of range (\<open>None\<close>); so is reading the last
  byte of an empty buffer.
\<close>

definition pkcs5unpad :: "bytes \<Rightarrow> bytes option" where
  "pkcs5unpad data =
     (if data = [] then None
      else let pad = unat (last data)
           in if pad \<le> length data then slice data 0 (length data - pad) else None)"

subsection \<open>Library routines with a fixed behaviour\<close>

text \<open>
  \<^verbatim>\<open>subtle.ConstantTimeByteEq(x, y)\<close> is \<^verbatim>\<open>int((uint32(x^y) - 1) >> 31)\<close>;
  \<^verbatim>\<open>subtle.ConstantTimeCompare(x, y)\<close> returns 0 at once when the lengths differ,
  as its documentation states, and otherwise accumulates \<^verbatim>\<open>v |= x[i] ^ y[i]\<close> and returns
  \<^verbatim>\<open>ConstantTimeByteEq(v, 0)\<close>.
\<close>

definition ConstantTimeByteEq :: "byte \<Rightarrow> byte \<Rightarrow> int" where
  "ConstantTimeByteEq x y = uint (drop_bit 31 ((ucast (x XOR y) :: 32 word) - 1))"

fun ctc_loop :: "byte \<Rightarrow> bytes \<Rightarrow> bytes \<Rightarrow> byte" where
  "ctc_loop v (a # x) (b # y) = ctc_loop (v OR (a XOR b)) x y"
| "ctc_loop v _ _ = v"

definition ConstantTimeCompare :: "bytes \<Rightarrow> bytes \<Rightarrow> int" where
  "ConstantTimeCompare x y =
     (if length x \<noteq> length y then 0 else ConstantTimeByteEq (ctc_loop 0 x y) 0)"

text \<open>
  \<^verbatim>\<open>io.ReadFull(rand.Reader, buf)\<close> with its result ignored: \<open>rnd\<close> is what the
  reader delivers; the buffer keeps its length, and its zeros where the reader
  fell short.
\<close>

definition ReadFull :: "bytes \<Rightarrow> bytes \<Rightarrow> bytes" where
  "ReadFull rnd buf = take (length buf) rnd @ drop (length rnd) buf"

definition make_bytes :: "nat \<Rightarrow> bytes" where
  "make_bytes n = replicate n 0"

text \<open>
  \<^verbatim>\<open>aes.NewCipher\<close> accepts keys of 16, 24 or 32 bytes and returns
  \<^verbatim>\<open>KeySizeError(len(key))\<close> otherwise. The cipher is identified by its key.
\<close>

definition aes_NewCipher :: "bytes \<Rightarrow> error + bytes" where
  "aes_NewCipher key =
     (if length key = 16 \<or> length key = 24 \<or> length key = 32 then Inr key
      else Inl (KeySizeError (length key)))"

text \<open>
  CBC over a block operation. \<^verbatim>\<open>CryptBlocks(dst, src)\<close> panics when \<open>src\<close> is not
  a whole number of blocks; otherwise it runs once per block. Each destination
  below is made with the length of its source.
\<close>

definition xor_bytes :: "bytes \<Rightarrow> bytes \<Rightarrow> bytes" where
  "xor_bytes a b = map2 (XOR) a b"

primrec cbc_encrypt_blocks :: "nat \<Rightarrow> (bytes \<Rightarrow> bytes) \<Rightarrow> bytes \<Rightarrow> bytes \<Rightarrow> bytes" where
  "cbc_encrypt_blocks 0 enc iv src = []"
| "cbc_encrypt_blocks (Suc n) enc iv src =
     (let c = enc (xor_bytes iv (take 16 src))
      in c @ cbc_encrypt_blocks n enc c (drop 16 src))"

primrec cbc_decrypt_blocks :: "nat \<Rightarrow> (bytes \<Rightarrow> bytes) \<Rightarrow> bytes \<Rightarrow> bytes \<Rightarrow> bytes" where
  "cbc_decrypt_blocks 0 dec iv src = []"
| "cbc_decrypt_blocks (Suc n) dec iv src =
     (let c = take 16 src
      in xor_bytes iv (dec c) @ cbc_decrypt_blocks n dec c (drop 16 src))"

definition CBCEncrypter_CryptBlocks :: "(bytes \<Rightarrow> bytes) \<Rightarrow> bytes \<Rightarrow> bytes \<Rightarrow> bytes option" where
  "CBCEncrypter_CryptBlocks enc iv src =
     (if length src mod aes_BlockSize \<noteq> 0 then None
      else Some (cbc_encrypt_blocks (length src div aes_BlockSize) enc iv src))"

definition CBCDecrypter_CryptBlocks :: "(bytes \<Rightarrow> bytes) \<Rightarrow> bytes \<Rightarrow> bytes \<Rightarrow> bytes option" where
  "CBCDecrypter_CryptBlocks dec iv src =
     (if length src mod aes_BlockSize \<noteq> 0 then None
      else Some (cbc_decrypt_blocks (length src div aes_BlockSize) dec iv src))"

subsection \<open>hmacKey\<close>

text \<open>\<^verbatim>\<open>Sign\<close> and \<^verbatim>\<open>Verify\<close> return a value and an error that is always nil.\<close>

definition hmacKey_KeyID :: "env \<Rightarrow> hmacKey \<Rightarrow> bytes" where
  "hmacKey_KeyID E hm =
     (let h = sha1_New;
          h = hash_Write h (hmacKey_key hm);
          id = hash_Sum E h
      in take 4 id)"

definition hmacKey_Sign :: "env \<Rightarrow> hmacKey \<Rightarrow> bytes \<Rightarrow> bytes \<times> error option" where
  "hmacKey_Sign E hm msg =
     (let sig = hmac_sha1 E (hmacKey_key hm) msg
      in (sig, None))"

definition hmacKey_Verify :: "env \<Rightarrow> hmacKey \<Rightarrow> bytes \<Rightarrow> bytes \<Rightarrow> bool \<times> error option" where
  "hmacKey_Verify E hm msg signature =
     (let sig = hmac_sha1 E (hmacKey_key hm) msg
      in (ConstantTimeCompare sig signature = 1, None))"

subsection \<open>aesKey\<close>

text \<open>
  A SHA-1 digest has 20 bytes, so \<^verbatim>\<open>id[0:4]\<close> is in range and is the first four
  bytes.
\<close>

definition aesKey_KeyID :: "env \<Rightarrow> aesKey \<Rightarrow> bytes" where
  "aesKey_KeyID E ak =
     (let h = sha1_New;
          h = binary_Write_uint32 h (uint32_len (aesKey_key ak));
          h = hash_Write h (aesKey_key ak);
          h = hash_Write h (hmacKey_key (aesKey_hmacKey ak));
          id = hash_Sum E h
      in take 4 id)"

text \<open>
  \<^verbatim>\<open>Encrypt\<close>; \<open>rnd\<close> is what \<^verbatim>\<open>rand.Reader\<close> delivers for the IV.
\<close>

definition aesKey_Encrypt :: "env \<Rightarrow> aesKey \<Rightarrow> bytes \<Rightarrow> bytes \<Rightarrow> bytes result" where
  "aesKey_Encrypt E ak rnd data0 =
     (let data = pkcs5pad data0 aes_BlockSize;
          iv_bytes = ReadFull rnd (make_bytes aes_BlockSize)
      in case aes_NewCipher (aesKey_key ak) of
           Inl err \<Rightarrow> Failed err
         | Inr aesCipher \<Rightarrow>
             (case CBCEncrypter_CryptBlocks (aes_encrypt E aesCipher) iv_bytes data of
                None \<Rightarrow> Panic
              | Some cipherBytes \<Rightarrow>
                  (let h = makeHeader E (aesKey_KeyID E ak);
                       msg = h @ iv_bytes @ cipherBytes
                   in case hmacKey_Sign E (aesKey_hmacKey ak) msg of
                        (sig, Some err) \<Rightarrow> Failed err
                      | (sig, None) \<Rightarrow> Returned (msg @ sig))))"

text \<open>
  \<^verbatim>\<open>Decrypt\<close>. After the length check every slice is in range:
  \<^verbatim>\<open>data[0:len-20]\<close>, \<^verbatim>\<open>data[len-20:]\<close>, \<^verbatim>\<open>data[hl:hl+16]\<close> and \<^verbatim>\<open>data[hl+16:len-20]\<close>.
\<close>

definition aesKey_Decrypt :: "env \<Rightarrow> aesKey \<Rightarrow> bytes \<Rightarrow> bytes result" where
  "aesKey_Decrypt E ak data =
     (if length data < kzHeaderLength E + aes_BlockSize + hmacSigLength then Failed ErrShortCiphertext
      else
        let msg = take (length data - hmacSigLength) data;
            sig = drop (length data - hmacSigLength) data;
            (ok, err) = hmacKey_Verify E (aesKey_hmacKey ak) msg sig
        in if \<not> ok \<or> err \<noteq> None
           then Failed (case err of None \<Rightarrow> ErrInvalidSignature | Some e \<Rightarrow> e)
           else
             (let iv_bytes = take aes_BlockSize (drop (kzHeaderLength E) data)
              in case aes_NewCipher (aesKey_key ak) of
                   Inl err \<Rightarrow> Failed err
                 | Inr aesCipher \<Rightarrow>
                     (case CBCDecrypter_CryptBlocks (aes_decrypt E aesCipher) iv_bytes
                             (take (length data - hmacSigLength - (kzHeaderLength E + aes_BlockSize))
                                (drop (kzHeaderLength E + aes_BlockSize) data)) of
                        None \<Rightarrow> Panic
                      | Some plainBytes \<Rightarrow>
                          (case pkcs5unpad plainBytes of
                             None \<Rightarrow> Panic
                           | Some unpadded \<Rightarrow> Returned unpadded))))"

subsection \<open>dsaPublicKey, dsaKey\<close>

definition dsaPublicKey_KeyID :: "env \<Rightarrow> dsaPublicKey \<Rightarrow> bytes" where
  "dsaPublicKey_KeyID E dk =
     (let key = dsaPublicKey_key dk;
          h = fold (\<lambda>n h. let b = big_Bytes n;
                               h = binary_Write_uint32 h (uint32_len b)
                           in hash_Write h b)
                [dsa_P key, dsa_Q key, dsa_G key, dsa_Y key] sha1_New;
          id = hash_Sum E h
      in take 4 id)"

definition dsaKey_KeyID :: "env \<Rightarrow> dsaKey \<Rightarrow> bytes" where
  "dsaKey_KeyID E dk = dsaPublicKey_KeyID E (dsaKey_publicKey dk)"

subsection \<open>rsaPublicKey, rsaKey\<close>

definition rsaPublicKey_KeyID :: "env \<Rightarrow> rsaPublicKey \<Rightarrow> bytes" where
  "rsaPublicKey_KeyID E rk =
     (let h = sha1_New;
          b = big_Bytes (rsa_N (rsaPublicKey_key rk));
          h = binary_Write_uint32 h (uint32_len b);
          h = hash_Write h b;
          e = rsa_E (rsaPublicKey_key rk);
          b = big_Bytes e;
          h = binary_Write_uint32 h (uint32_len b);
          h = hash_Write h b;
          id = hash_Sum E h
      in take 4 id)"

definition rsaKey_KeyID :: "env \<Rightarrow> rsaKey \<Rightarrow> bytes" where
  "rsaKey_KeyID E rk = rsaPublicKey_KeyID E (rsaKey_publicKey rk)"

text \<open>
  \<^verbatim>\<open>Decrypt\<close>: \<^verbatim>\<open>msg[kzHeaderLength:]\<close> is evaluated first, as an argument of
  \<^verbatim>\<open>rsa.DecryptOAEP\<close>; it panics when the message is shorter than the header.
\<close>

definition rsaKey_Decrypt :: "env \<Rightarrow> rsaKey \<Rightarrow> bytes \<Rightarrow> bytes result" where
  "rsaKey_Decrypt E rk msg =
     (case slice msg (kzHeaderLength E) (length msg) of
        None \<Rightarrow> Panic
      | Some rest \<Rightarrow>
          (case rsa_DecryptOAEP E (rsaKey_key rk) rest of
             Failed err \<Rightarrow> Failed err
           | Returned s \<Rightarrow> Returned s
           | Panic \<Rightarrow> Panic))"

subsection \<open>The loaders\<close>

text \<open>
  All six loaders have the shape
  \<^verbatim>\<open>keys := make(map[int]keyIDer); for _, kv := range km.Versions { ...; keys[kv.VersionNumber] = key }; return keys, nil\<close>
  where the loop body leaves the function with \<^verbatim>\<open>return nil, err\<close> at the first
  problem. \<open>range_Versions body\<close> is that loop around the body of one loader.
\<close>

fun range_Versions ::
  "(keyVersion \<Rightarrow> keyIDer result) \<Rightarrow> keyVersion list \<Rightarrow> (int \<rightharpoonup> keyIDer) \<Rightarrow> (int \<rightharpoonup> keyIDer) result" where
  "range_Versions body [] keys = Returned keys"
| "range_Versions body (kv # kvs) keys =
     (case body kv of
        Returned key \<Rightarrow> range_Versions body kvs (keys(VersionNumber kv \<mapsto> key))
      | Failed err \<Rightarrow> Failed err
      | Panic \<Rightarrow> Panic)"

text \<open>
  \<^verbatim>\<open>b, err := decodeWeb64String(x); if err != nil { return nil, ErrBase64Decoding }\<close>,
  followed by the rest of the body.
\<close>

definition decodeWeb64 :: "env \<Rightarrow> string \<Rightarrow> (bytes \<Rightarrow> 'a result) \<Rightarrow> 'a result" where
  "decodeWeb64 E x rest =
     (case decodeWeb64String E x of None \<Rightarrow> Failed ErrBase64Decoding | Some b \<Rightarrow> rest b)"

definition newAesKeys_body :: "env \<Rightarrow> KeyReader \<Rightarrow> keyVersion \<Rightarrow> keyIDer result" where
  "newAesKeys_body E r kv =
     (case r (VersionNumber kv) of
        Inl err \<Rightarrow> Failed ErrBase64Decoding
      | Inr s \<Rightarrow>
          (case unmarshal_aes E s of
             None \<Rightarrow> Panic
           | Some aesjson \<Rightarrow>
               if \<not> isAcceptableSize E ktAES (aes_Size aesjson) then Failed ErrInvalidKeySize
               else decodeWeb64 E (AesKeyString aesjson) (\<lambda>key.
                 if \<not> isAcceptableSize E ktHMAC_SHA1 (hmac_Size (HmacKey aesjson))
                 then Failed ErrInvalidKeySize
                 else decodeWeb64 E (HmacKeyString (HmacKey aesjson)) (\<lambda>hkey.
                   Returned (AesKey \<lparr>aesKey_key = key, aesKey_hmacKey = \<lparr>hmacKey_key = hkey\<rparr>\<rparr>)))))"

definition newAesKeys :: "env \<Rightarrow> KeyReader \<Rightarrow> keyMeta \<Rightarrow> (int \<rightharpoonup> keyIDer) result" where
  "newAesKeys E r km = range_Versions (newAesKeys_body E r) (Versions km) Map.empty"

definition newHmacKeys_body :: "env \<Rightarrow> KeyReader \<Rightarrow> keyVersion \<Rightarrow> keyIDer result" where
  "newHmacKeys_body E r kv =
     (case r (VersionNumber kv) of
        Inl err \<Rightarrow> Failed err
      | Inr s \<Rightarrow>
          (case unmarshal_hmac E s of
             None \<Rightarrow> Panic
           | Some hmacjson \<Rightarrow>
               if \<not> isAcceptableSize E ktHMAC_SHA1 (hmac_Size hmacjson) then Failed ErrInvalidKeySize
               else decodeWeb64 E (HmacKeyString hmacjson) (\<lambda>key.
                 Returned (HmacKey_of \<lparr>hmacKey_key = key\<rparr>))))"

definition newHmacKeys :: "env \<Rightarrow> KeyReader \<Rightarrow> keyMeta \<Rightarrow> (int \<rightharpoonup> keyIDer) result" where
  "newHmacKeys E r km = range_Versions (newHmacKeys_body E r) (Versions km) Map.empty"

definition newDsaPublicKeys_body :: "env \<Rightarrow> KeyReader \<Rightarrow> keyVersion \<Rightarrow> keyIDer result" where
  "newDsaPublicKeys_body E r kv =
     (case r (VersionNumber kv) of
        Inl err \<Rightarrow> Failed err
      | Inr s \<Rightarrow>
          (case unmarshal_dsa_pub E s of
             None \<Rightarrow> Panic
           | Some dsajson \<Rightarrow>
               if \<not> isAcceptableSize E ktDSA_PUB (dsa_pub_Size dsajson) then Failed ErrInvalidKeySize
               else decodeWeb64 E (dsa_json_Y dsajson) (\<lambda>y.
                    decodeWeb64 E (dsa_json_G dsajson) (\<lambda>g.
                    decodeWeb64 E (dsa_json_P dsajson) (\<lambda>p.
                    decodeWeb64 E (dsa_json_Q dsajson) (\<lambda>q.
                      Returned (DsaPublicKey \<lparr>dsaPublicKey_key =
                        \<lparr>dsa_P = SetBytes p, dsa_Q = SetBytes q,
                         dsa_G = SetBytes g, dsa_Y = SetBytes y\<rparr>\<rparr>)))))))"

definition newDsaPublicKeys :: "env \<Rightarrow> KeyReader \<Rightarrow> keyMeta \<Rightarrow> (int \<rightharpoonup> keyIDer) result" where
  "newDsaPublicKeys E r km = range_Versions (newDsaPublicKeys_body E r) (Versions km) Map.empty"

definition newDsaKeys_body :: "env \<Rightarrow> KeyReader \<Rightarrow> keyVersion \<Rightarrow> keyIDer result" where
  "newDsaKeys_body E r kv =
     (case r (VersionNumber kv) of
        Inl err \<Rightarrow> Failed err
      | Inr s \<Rightarrow>
          (case unmarshal_dsa E s of
             None \<Rightarrow> Panic
           | Some dsajson \<Rightarrow>
               if \<not> isAcceptableSize E ktDSA_PRIV (dsa_Size dsajson)
                  \<or> \<not> isAcceptableSize E ktDSA_PUB (dsa_pub_Size (dsa_json_PublicKey dsajson))
               then Failed ErrInvalidKeySize
               else decodeWeb64 E (dsa_json_X dsajson) (\<lambda>x.
                    decodeWeb64 E (dsa_json_Y (dsa_json_PublicKey dsajson)) (\<lambda>y.
                    decodeWeb64 E (dsa_json_G (dsa_json_PublicKey dsajson)) (\<lambda>g.
                    decodeWeb64 E (dsa_json_P (dsa_json_PublicKey dsajson)) (\<lambda>p.
                    decodeWeb64 E (dsa_json_Q (dsa_json_PublicKey dsajson)) (\<lambda>q.
                      Returned (DsaKey
                        \<lparr>dsaKey_key =
                           \<lparr>dsa_P = SetBytes p, dsa_Q = SetBytes q, dsa_G = SetBytes g,
                            dsa_Y = SetBytes y, dsa_X = SetBytes x\<rparr>,
                         dsaKey_publicKey = \<lparr>dsaPublicKey_key =
                           \<lparr>dsa_P = SetBytes p, dsa_Q = SetBytes q, dsa_G = SetBytes g,
                            dsa_Y = SetBytes y\<rparr>\<rparr>\<rparr>))))))))"

definition newDsaKeys :: "env \<Rightarrow> KeyReader \<Rightarrow> keyMeta \<Rightarrow> (int \<rightharpoonup> keyIDer) result" where
  "newDsaKeys E r km = range_Versions (newDsaKeys_body E r) (Versions km) Map.empty"

definition newRsaPublicKeys_body :: "env \<Rightarrow> KeyReader \<Rightarrow> keyVersion \<Rightarrow> keyIDer result" where
  "newRsaPublicKeys_body E r kv =
     (case r (VersionNumber kv) of
        Inl err \<Rightarrow> Failed err
      | Inr s \<Rightarrow>
          (case unmarshal_rsa_pub E s of
             None \<Rightarrow> Panic
           | Some rsajson \<Rightarrow>
               if \<not> isAcceptableSize E ktRSA_PUB (rsa_pub_Size rsajson) then Failed ErrInvalidKeySize
               else decodeWeb64 E (Modulus rsajson) (\<lambda>n.
                    decodeWeb64 E (PublicExponent rsajson) (\<lambda>e.
                      Returned (RsaPublicKey \<lparr>rsaPublicKey_key =
                        \<lparr>rsa_N = SetBytes n, rsa_E = Int64 (SetBytes e)\<rparr>\<rparr>)))))"

definition newRsaPublicKeys :: "env \<Rightarrow> KeyReader \<Rightarrow> keyMeta \<Rightarrow> (int \<rightharpoonup> keyIDer) result" where
  "newRsaPublicKeys E r km = range_Versions (newRsaPublicKeys_body E r) (Versions km) Map.empty"

definition newRsaKeys_body :: "env \<Rightarrow> KeyReader \<Rightarrow> keyVersion \<Rightarrow> keyIDer result" where
  "newRsaKeys_body E r kv =
     (case r (VersionNumber kv) of
        Inl err \<Rightarrow> Failed err
      | Inr s \<Rightarrow>
          (case unmarshal_rsa E s of
             None \<Rightarrow> Panic
           | Some rsajson \<Rightarrow>
               if \<not> isAcceptableSize E ktRSA_PRIV (rsa_Size rsajson)
                  \<or> \<not> isAcceptableSize E ktRSA_PUB (rsa_pub_Size (rsa_json_PublicKey rsajson))
               then Failed ErrInvalidKeySize
               else decodeWeb64 E (CrtCoefficient rsajson) (\<lambda>qinv.
                    decodeWeb64 E (PrimeExponentP rsajson) (\<lambda>dp.
                    decodeWeb64 E (PrimeExponentQ rsajson) (\<lambda>dq.
                    decodeWeb64 E (PrimeP rsajson) (\<lambda>p.
                    decodeWeb64 E (PrimeQ rsajson) (\<lambda>q.
                    decodeWeb64 E (PrivateExponent rsajson) (\<lambda>d.
                    decodeWeb64 E (Modulus (rsa_json_PublicKey rsajson)) (\<lambda>n.
                    decodeWeb64 E (PublicExponent (rsa_json_PublicKey rsajson)) (\<lambda>e.
                      Returned (RsaKey
                        \<lparr>rsaKey_key =
                           \<lparr>rsa_N = SetBytes n, rsa_E = Int64 (SetBytes e), rsa_D = SetBytes d,
                            rsa_Primes = [SetBytes p, SetBytes q], rsa_Dp = SetBytes dp,
                            rsa_Dq = SetBytes dq, rsa_Qinv = SetBytes qinv\<rparr>,
                         rsaKey_publicKey = \<lparr>rsaPublicKey_key =
                           \<lparr>rsa_N = SetBytes n, rsa_E = Int64 (SetBytes e)\<rparr>\<rparr>\<rparr>)))))))))))"

definition newRsaKeys :: "env \<Rightarrow> KeyReader \<Rightarrow> keyMeta \<Rightarrow> (int \<rightharpoonup> keyIDer) result" where
  "newRsaKeys E r km = range_Versions (newRsaKeys_body E r) (Versions km) Map.empty"

text \<open>
  The six loaders side by side, selected by the key type they load, so that a
  property of all of them can be stated once; and what the body of each
  checks on a record \<open>s\<close> it has fetched: that it decodes to a record struct
  at all, its declared sizes, and its base64 strings.
\<close>

fun loader_body :: "env \<Rightarrow> keyType \<Rightarrow> KeyReader \<Rightarrow> keyVersion \<Rightarrow> keyIDer result" where
  "loader_body E ktAES = newAesKeys_body E"
| "loader_body E ktHMAC_SHA1 = newHmacKeys_body E"
| "loader_body E ktDSA_PUB = newDsaPublicKeys_body E"
| "loader_body E ktDSA_PRIV = newDsaKeys_body E"
| "loader_body E ktRSA_PUB = newRsaPublicKeys_body E"
| "loader_body E ktRSA_PRIV = newRsaKeys_body E"

fun loader :: "env \<Rightarrow> keyType \<Rightarrow> KeyReader \<Rightarrow> keyMeta \<Rightarrow> (int \<rightharpoonup> keyIDer) result" where
  "loader E ktAES = newAesKeys E"
| "loader E ktHMAC_SHA1 = newHmacKeys E"
| "loader E ktDSA_PUB = newDsaPublicKeys E"
| "loader E ktDSA_PRIV = newDsaKeys E"
| "loader E ktRSA_PUB = newRsaPublicKeys E"
| "loader E ktRSA_PRIV = newRsaKeys E"

fun record_decoded :: "env \<Rightarrow> keyType \<Rightarrow> string \<Rightarrow> bool" where
  "record_decoded E ktAES s = (unmarshal_aes E s \<noteq> None)"
| "record_decoded E ktHMAC_SHA1 s = (unmarshal_hmac E s \<noteq> None)"
| "record_decoded E ktDSA_PUB s = (unmarshal_dsa_pub E s \<noteq> None)"
| "record_decoded E ktDSA_PRIV s = (unmarshal_dsa E s \<noteq> None)"
| "record_decoded E ktRSA_PUB s = (unmarshal_rsa_pub E s \<noteq> None)"
| "record_decoded E ktRSA_PRIV s = (unmarshal_rsa E s \<noteq> None)"

definition decodes :: "env \<Rightarrow> string \<Rightarrow> bool" where
  "decodes E x \<longleftrightarrow> decodeWeb64String E x \<noteq> None"

fun sizes_ok :: "env \<Rightarrow> keyType \<Rightarrow> string \<Rightarrow> bool" where
  "sizes_ok E ktAES s =
     (case unmarshal_aes E s of None \<Rightarrow> False
      | Some j \<Rightarrow> isAcceptableSize E ktAES (aes_Size j)
                 \<and> isAcceptableSize E ktHMAC_SHA1 (hmac_Size (HmacKey j)))"
| "sizes_ok E ktHMAC_SHA1 s =
     (case unmarshal_hmac E s of None \<Rightarrow> False
      | Some j \<Rightarrow> isAcceptableSize E ktHMAC_SHA1 (hmac_Size j))"
| "sizes_ok E ktDSA_PUB s =
     (case unmarshal_dsa_pub E s of None \<Rightarrow> False
      | Some j \<Rightarrow> isAcceptableSize E ktDSA_PUB (dsa_pub_Size j))"
| "sizes_ok E ktDSA_PRIV s =
     (case unmarshal_dsa E s of None \<Rightarrow> False
      | Some j \<Rightarrow> isAcceptableSize E ktDSA_PRIV (dsa_Size j)
                 \<and> isAcceptableSize E ktDSA_PUB (dsa_pub_Size (dsa_json_PublicKey j)))"
| "sizes_ok E ktRSA_PUB s =
     (case unmarshal_rsa_pub E s of None \<Rightarrow> False
      | Some j \<Rightarrow> isAcceptableSize E ktRSA_PUB (rsa_pub_Size j))"
| "sizes_ok E ktRSA_PRIV s =
     (case unmarshal_rsa E s of None \<Rightarrow> False
      | Some j \<Rightarrow> isAcceptableSize E ktRSA_PRIV (rsa_Size j)
                 \<and> isAcceptableSize E ktRSA_PUB (rsa_pub_Size (rsa_json_PublicKey j)))"

fun strings_ok :: "env \<Rightarrow> keyType \<Rightarrow> string \<Rightarrow> bool" where
  "strings_ok E ktAES s =
     (case unmarshal_aes E s of None \<Rightarrow> False
      | Some j \<Rightarrow> decodes E (AesKeyString j) \<and> decodes E (HmacKeyString (HmacKey j)))"
| "strings_ok E ktHMAC_SHA1 s =
     (case unmarshal_hmac E s of None \<Rightarrow> False
      | Some j \<Rightarrow> decodes E (HmacKeyString j))"
| "strings_ok E ktDSA_PUB s =
     (case unmarshal_dsa_pub E s of None \<Rightarrow> False
      | Some j \<Rightarrow> decodes E (dsa_json_Y j) \<and> decodes E (dsa_json_G j)
                 \<and> decodes E (dsa_json_P j) \<and> decodes E (dsa_json_Q j))"
| "strings_ok E ktDSA_PRIV s =
     (case unmarshal_dsa E s of None \<Rightarrow> False
      | Some j \<Rightarrow> decodes E (dsa_json_X j)
                 \<and> decodes E (dsa_json_Y (dsa_json_PublicKey j))
                 \<and> decodes E (dsa_json_G (dsa_json_PublicKey j))
                 \<and> decodes E (dsa_json_P (dsa_json_PublicKey j))
                 \<and> decodes E (dsa_json_Q (dsa_json_PublicKey j)))"
| "strings_ok E ktRSA_PUB s =
     (case unmarshal_rsa_pub E s of None \<Rightarrow> False
      | Some j \<Rightarrow> decodes E (Modulus j) \<and> decodes E (PublicExponent j))"
| "strings_ok E ktRSA_PRIV s =
     (case unmarshal_rsa E s of None \<Rightarrow> False
      | Some j \<Rightarrow> decodes E (CrtCoefficient j) \<and> decodes E (PrimeExponentP j)
                 \<and> decodes E (PrimeExponentQ j) \<and> decodes E (PrimeP j)
                 \<and> decodes E (PrimeQ j) \<and> decodes E (PrivateExponent j)
                 \<and> decodes E (Modulus (rsa_json_PublicKey j))
                 \<and> decodes E (PublicExponent (rsa_json_PublicKey j)))"

subsection \<open>Well-formed padding, as the specification has it\<close>

text \<open>
  Section 4.2 of the specification asks that the padding be validated on
  decrypt. This is what a validation of PKCS#5/7 padding accepts: the last
  byte \<open>n\<close> is between 1 and the block size, and the last \<open>n\<close> bytes all have
  the value \<open>n\<close>. It is used to say which inputs carry malformed padding; no
  function of the source computes it.
\<close>

definition pkcs5_padding_ok :: "bytes \<Rightarrow> nat \<Rightarrow> bool" where
  "pkcs5_padding_ok data blocksize \<longleftrightarrow>
     data \<noteq> [] \<and>
     (let n = unat (last data)
      in 1 \<le> n \<and> n \<le> blocksize \<and> n \<le> length data
         \<and> drop (length data - n) data = replicate n (last data))"

subsection \<open>A small instance of the interfaces\<close>

text \<open>
  To run the functions above on concrete inputs, the parameters need values.
  This instance has a five-byte header (a zero version byte and the four bytes
  of the key identifier), the size tables of Keyczar, a string decoder that
  rejects the padding character, and simple stand-ins for the primitives: a
  digest and a tag of 20 bytes each, and a block operation that adds the sum
  of the key bytes to every byte of the block. The record texts it
  understands are listed one by one; any other text leaves the record
  struct at its zero value, as a failed \<^verbatim>\<open>Unmarshal\<close> does.
\<close>

definition bytes_of :: "string \<Rightarrow> bytes" where
  "bytes_of s = map (\<lambda>c. of_nat (of_char c)) s"

definition sample_isAcceptableSize :: "keyType \<Rightarrow> nat \<Rightarrow> bool" where
  "sample_isAcceptableSize t n =
     (case t of
        ktAES \<Rightarrow> n = 128 \<or> n = 192 \<or> n = 256
      | ktHMAC_SHA1 \<Rightarrow> n = 256
      | ktDSA_PRIV \<Rightarrow> n = 1024
      | ktDSA_PUB \<Rightarrow> n = 1024
      | ktRSA_PRIV \<Rightarrow> n = 4096 \<or> n = 2048 \<or> n = 1024 \<or> n = 768 \<or> n = 512
      | ktRSA_PUB \<Rightarrow> n = 4096 \<or> n = 2048 \<or> n = 1024 \<or> n = 768 \<or> n = 512)"

definition sample_unmarshal_hmac :: "string \<Rightarrow> hmacKeyJSON option" where
  "sample_unmarshal_hmac s =
     (if s = ''null'' then None
      else if s = ''{hmacKeyString:QUJD,size:256}''
        then Some \<lparr>HmacKeyString = ''QUJD'', hmac_Size = 256\<rparr>
      else if s = ''{hmacKeyString:QUJD,size:7}''
        then Some \<lparr>HmacKeyString = ''QUJD'', hmac_Size = 7\<rparr>
      else if s = ''{hmacKeyString:QUJD=,size:256}''
        then Some \<lparr>HmacKeyString = ''QUJD='', hmac_Size = 256\<rparr>
      else Some \<lparr>HmacKeyString = [], hmac_Size = 0\<rparr>)"

definition sample_env :: env where
  "sample_env =
     \<lparr>kzHeaderLength = 5,
      makeHeader = (\<lambda>kid. 0 # take 4 kid @ replicate (4 - length kid) 0),
      isAcceptableSize = sample_isAcceptableSize,
      decodeWeb64String = (\<lambda>x. if CHR ''='' \<in> set x then None else Some (bytes_of x)),
      sha1 = (\<lambda>m. replicate 20 (sum_list m)),
      hmac_sha1 = (\<lambda>k m. replicate 20 (sum_list k + sum_list m)),
      aes_encrypt = (\<lambda>k b. map (\<lambda>x. x + sum_list k) b),
      aes_decrypt = (\<lambda>k b. map (\<lambda>x. x - sum_list k) b),
      rsa_DecryptOAEP = (\<lambda>key c. if c = [] then Failed (ExternalError ''decryption error'')
                                   else Returned c),
      unmarshal_hmac = sample_unmarshal_hmac,
      unmarshal_aes = (\<lambda>s. if s = ''null'' then None
         else Some \<lparr>AesKeyString = [], aes_Size = 0,
                    HmacKey = \<lparr>HmacKeyString = [], hmac_Size = 0\<rparr>, Mode = []\<rparr>),
      unmarshal_dsa_pub = (\<lambda>s. if s = ''null'' then None
         else Some \<lparr>dsa_json_Q = [], dsa_json_P = [], dsa_json_Y = [], dsa_json_G = [],
                    dsa_pub_Size = 0\<rparr>),
      unmarshal_dsa = (\<lambda>s. if s = ''null'' then None
         else Some \<lparr>dsa_json_PublicKey =
                      \<lparr>dsa_json_Q = [], dsa_json_P = [], dsa_json_Y = [], dsa_json_G = [],
                       dsa_pub_Size = 0\<rparr>,
                    dsa_Size = 0, dsa_json_X = []\<rparr>),
      unmarshal_rsa_pub = (\<lambda>s. if s = ''null'' then None
         else Some \<lparr>Modulus = [], PublicExponent = [], rsa_pub_Size = 0\<rparr>),
      unmarshal_rsa = (\<lambda>s. if s = ''null'' then None
         else Some \<lparr>CrtCoefficient = [], PrimeExponentP = [], PrimeExponentQ = [],
                    PrimeP = [], PrimeQ = [], PrivateExponent = [],
                    rsa_json_PublicKey = \<lparr>Modulus = [], PublicExponent = [], rsa_pub_Size = 0\<rparr>,
                    rsa_Size = 0\<rparr>)\<rparr>"

definition sample_aesKey :: aesKey where
  "sample_aesKey =
     \<lparr>aesKey_key = replicate 16 1,
      aesKey_hmacKey = \<lparr>hmacKey_key = replicate 32 2\<rparr>\<rparr>"

definition sample_reader :: KeyReader where
  "sample_reader v =
     (if v = 1 then Inr ''{hmacKeyString:QUJD,size:256}''
      else if v = 2 then Inr ''{hmacKeyString:QUJD,size:7}''
      else if v = 3 then Inr ''{hmacKeyString:QUJD=,size:256}''
      else if v = 4 then Inr ''null''
      else Inl (ExternalError ''no such version''))"

definition sample_iv :: bytes where
  "sample_iv = [1, 2, 3, 4, 5, 6, 7, 8, 9, 10, 11, 12, 13, 14, 15, 16]"

definition sample_plaintext :: bytes where
  "sample_plaintext = bytes_of ''hello world''"

text \<open>
  What \<^verbatim>\<open>Encrypt\<close> gives for \<open>sample_plaintext\<close> under \<open>sample_aesKey\<close> with
  \<open>sample_iv\<close>: header, IV, one block, tag. \<open>tampered_ciphertext\<close> differs from
  it in the last byte of the tag.
\<close>

definition sample_ciphertext :: bytes where
  "sample_ciphertext =
     [0, 96, 96, 96, 96,
      1, 2, 3, 4, 5, 6, 7, 8, 9, 10, 11, 12, 13, 14, 15, 16,
      121, 119, 127, 120, 122, 54, 128, 119, 139, 118, 127, 25, 24, 27, 26, 37,
      225, 225, 225, 225, 225, 225, 225, 225, 225, 225,
      225, 225, 225, 225, 225, 225, 225, 225, 225, 225]"

definition tampered_ciphertext :: bytes where
  "tampered_ciphertext =
     [0, 96, 96, 96, 96,
      1, 2, 3, 4, 5, 6, 7, 8, 9, 10, 11, 12, 13, 14, 15, 16,
      121, 119, 127, 120, 122, 54, 128, 119, 139, 118, 127, 25, 24, 27, 26, 37,
      225, 225, 225, 225, 225, 225, 225, 225, 225, 225,
      225, 225, 225, 225, 225, 225, 225, 225, 225, 224]"

text \<open>
  An input with a valid tag whose only block decrypts, under \<open>sample_aesKey\<close>, to
  \<^verbatim>\<open>ABCDEFGHIJKLM\<close> followed by the bytes 9, 7, 3: the last byte announces three
  bytes of padding, and the two bytes before it are not 3.
\<close>

definition malformed_ciphertext :: bytes where
  "malformed_ciphertext =
     [0, 96, 96, 96, 96,
      0, 0, 0, 0, 0, 0, 0, 0, 0, 0, 0, 0, 0, 0, 0, 0,
      81, 82, 83, 84, 85, 86, 87, 88, 89, 90, 91, 92, 93, 25, 23, 19,
      110, 110, 110, 110, 110, 110, 110, 110, 110, 110,
      110, 110, 110, 110, 110, 110, 110, 110, 110, 110]"

definition unusable_aesKey :: aesKey where
  "unusable_aesKey =
     \<lparr>aesKey_key = [1, 2, 3],
      aesKey_hmacKey = \<lparr>hmacKey_key = replicate 32 2\<rparr>\<rparr>"

definition sample_rsaKey :: rsaKey where
  "sample_rsaKey =
     \<lparr>rsaKey_key = \<lparr>rsa_N = 3233, rsa_E = 17, rsa_D = 413, rsa_Primes = [61, 53],
                    rsa_Dp = 53, rsa_Dq = 49, rsa_Qinv = 38\<rparr>,
      rsaKey_publicKey = \<lparr>rsaPublicKey_key = \<lparr>rsa_N = 3233, rsa_E = 17\<rparr>\<rparr>\<rparr>"

subsection \<open>Auxiliary notions for the statements\<close>

text \<open>
  The bytes \<^verbatim>\<open>CryptBlocks\<close> leaves in \<^verbatim>\<open>plainBytes\<close> in \<^verbatim>\<open>Decrypt\<close>, before the
  padding is removed.
\<close>

definition cbc_plaintext :: "env \<Rightarrow> aesKey \<Rightarrow> bytes \<Rightarrow> bytes" where
  "cbc_plaintext E ak data =
     cbc_decrypt_blocks ((length data - 20 - (kzHeaderLength E + 16)) div 16)
       (aes_decrypt E (aesKey_key ak))
       (take 16 (drop (kzHeaderLength E) data))
       (take (length data - 20 - (kzHeaderLength E + 16)) (drop (kzHeaderLength E + 16) data))"

text \<open>
  What the body of a loader does with a record that was fetched and decoded:
  it returns a key when all checks pass, and otherwise the error of a size
  check or of a decoding, the one that applies when only one kind fails.
\<close>

definition outcome_ok :: "env \<Rightarrow> keyType \<Rightarrow> string \<Rightarrow> keyIDer result \<Rightarrow> bool" where
  "outcome_ok E t s R \<longleftrightarrow>
     (sizes_ok E t s \<and> strings_ok E t s \<longrightarrow> (\<exists>key. R = Returned key))
   \<and> (\<not> sizes_ok E t s \<or> \<not> strings_ok E t s \<longrightarrow>
        (R = Failed ErrInvalidKeySize \<or> R = Failed ErrBase64Decoding)
        \<and> (strings_ok E t s \<longrightarrow> R = Failed ErrInvalidKeySize)
        \<and> (sizes_ok E t s \<longrightarrow> R = Failed ErrBase64Decoding))"

section \<open>Properties\<close>

subsection \<open>Constant-time comparison\<close>

lemma unat_byte_less: "unat (v :: byte) < 256"
  using unsigned_less [of v, where 'a = nat] by simp

lemma unat_ucast_byte: "unat (ucast (v :: byte) :: 32 word) = unat v"
proof -
  have "unat v < 2 ^ 32" using unat_byte_less [of v] by simp
  then show ?thesis
    by (simp add: unsigned_ucast_eq take_bit_nat_eq_self)
qed

lemma ConstantTimeByteEq_same: "ConstantTimeByteEq 0 0 = 1"
  by (simp add: ConstantTimeByteEq_def)

lemma ConstantTimeByteEq_differ:
  assumes "v \<noteq> 0"
  shows "ConstantTimeByteEq v 0 = 0"
proof -
  let ?w = "ucast v :: 32 word"
  have u: "unat ?w = unat v" by (rule unat_ucast_byte)
  have nz: "?w \<noteq> 0"
  proof
    assume "?w = 0"
    then have "unat ?w = 0" by simp
    with u have "unat v = 0" by simp
    with assms show False by (simp add: unat_eq_0)
  qed
  have "unat (?w - 1) < 256"
    using nz u unat_byte_less [of v] by (simp add: unat_minus_one)
  then have "drop_bit 31 (unat (?w - 1)) = 0"
    by (simp add: drop_bit_eq_div)
  then have "unat (drop_bit 31 (?w - 1)) = 0"
    by (simp only: unat_drop_bit_eq)
  then have "drop_bit 31 (?w - 1) = 0"
    by (simp only: unat_eq_0)
  then show ?thesis
    by (simp add: ConstantTimeByteEq_def)
qed

lemma ConstantTimeByteEq_zero_iff: "ConstantTimeByteEq v 0 = 1 \<longleftrightarrow> v = 0"
proof (cases "v = 0")
  case True
  then show ?thesis by (simp add: ConstantTimeByteEq_same)
next
  case False
  then show ?thesis by (simp add: ConstantTimeByteEq_differ)
qed

lemma xor_byte_eq_0: "(a :: byte) XOR b = 0 \<longleftrightarrow> a = b"
  by (metis bit.xor_left_self xor.right_neutral)

lemma ctc_loop_zero: "length x = length y \<Longrightarrow> ctc_loop v x y = 0 \<longleftrightarrow> v = 0 \<and> x = y"
  by (induction v x y rule: ctc_loop.induct) (auto simp: or_eq_0_iff xor_byte_eq_0)

lemma ConstantTimeCompare_eq: "ConstantTimeCompare x y = 1 \<longleftrightarrow> x = y"
  by (auto simp: ConstantTimeCompare_def ConstantTimeByteEq_zero_iff ctc_loop_zero)

lemma hmacKey_Verify_eq:
  "hmacKey_Verify E hm msg signature = (signature = hmac_sha1 E (hmacKey_key hm) msg, None)"
  by (auto simp: hmacKey_Verify_def ConstantTimeCompare_eq)

subsection \<open>The sample instance meets the contracts\<close>

lemma sample_kzHeaderLength [simp]: "kzHeaderLength sample_env = 5"
  by (simp add: sample_env_def)

lemma sample_makeHeader [simp]:
  "makeHeader sample_env kid = 0 # take 4 kid @ replicate (4 - length kid) 0"
  by (simp add: sample_env_def)

lemma sample_sha1 [simp]: "sha1 sample_env m = replicate 20 (sum_list m)"
  by (simp add: sample_env_def)

lemma sample_hmac_sha1 [simp]:
  "hmac_sha1 sample_env k m = replicate 20 (sum_list k + sum_list m)"
  by (simp add: sample_env_def)

lemma sample_aes_encrypt [simp]: "aes_encrypt sample_env k b = map (\<lambda>x. x + sum_list k) b"
  by (simp add: sample_env_def)

lemma sample_aes_decrypt [simp]: "aes_decrypt sample_env k b = map (\<lambda>x. x - sum_list k) b"
  by (simp add: sample_env_def)

lemma sample_rsa_DecryptOAEP [simp]:
  "rsa_DecryptOAEP sample_env key c =
     (if c = [] then Failed (ExternalError ''decryption error'') else Returned c)"
  by (simp add: sample_env_def)

lemma sample_decodeWeb64String [simp]:
  "decodeWeb64String sample_env x = (if CHR ''='' \<in> set x then None else Some (bytes_of x))"
  by (simp add: sample_env_def)

lemma sample_isAcceptableSize_sel [simp]: "isAcceptableSize sample_env = sample_isAcceptableSize"
  by (simp add: sample_env_def)

lemma sample_unmarshal_hmac_sel [simp]: "unmarshal_hmac sample_env = sample_unmarshal_hmac"
  by (simp add: sample_env_def)

lemma sample_hmac_size_ok: "hmac_size_ok sample_env"
  by (simp add: hmac_size_ok_def)

lemma sample_header_size_ok: "header_size_ok sample_env"
  by (simp add: header_size_ok_def min_def)

lemma sample_aes_blocks_ok: "aes_blocks_ok sample_env k"
  by (simp add: aes_blocks_ok_def comp_def)

subsection \<open>HMAC verification\<close>



subsection \<open>Symmetric decryption: the checks before the cipher\<close>

text \<open>
  C4. For every input shorter than \<open>kzHeaderLength + 16 + 20\<close> bytes, \<^verbatim>\<open>Decrypt\<close>
  of the symmetric key returns \<open>ErrShortCiphertext\<close>; it does not panic.
\<close>

theorem Decrypt_short_input:
  assumes "length data < kzHeaderLength E + 16 + 20"
  shows "aesKey_Decrypt E ak data = Failed ErrShortCiphertext"
  using assms by (simp add: aesKey_Decrypt_def aes_BlockSize_def hmacSigLength_def)

theorem Decrypt_short_input_witness:
  "length (replicate 40 (7 :: byte)) < kzHeaderLength sample_env + 16 + 20
   \<and> aesKey_Decrypt sample_env sample_aesKey (replicate 40 7) = Failed ErrShortCiphertext"
  using Decrypt_short_input [of "replicate 40 7" sample_env sample_aesKey]
  by simp

text \<open>
  C1. For every input that passes the length check, \<^verbatim>\<open>Decrypt\<close> compares the
  last 20 bytes with the HMAC, under the bundled MAC key, of everything before
  them, and it returns \<open>ErrInvalidSignature\<close>, and no plaintext, exactly when
  they differ. This holds for every key and every input, also when the cipher
  would reject the key or when the payload is not a whole number of blocks:
  the tag is checked before anything is decrypted.
\<close>

theorem Decrypt_verifies_before_decrypting:
  assumes "kzHeaderLength E + 16 + 20 \<le> length data"
  shows "aesKey_Decrypt E ak data = Failed ErrInvalidSignature
         \<longleftrightarrow> drop (length data - 20) data
               \<noteq> hmac_sha1 E (hmacKey_key (aesKey_hmacKey ak)) (take (length data - 20) data)"
  using assms
  by (auto simp: aesKey_Decrypt_def aes_BlockSize_def hmacSigLength_def hmacKey_Verify_eq
      aes_NewCipher_def Let_def split: sum.splits option.splits)

theorem Decrypt_verifies_before_decrypting_witness:
  "kzHeaderLength sample_env + 16 + 20 \<le> length tampered_ciphertext
   \<and> aes_NewCipher (aesKey_key unusable_aesKey) = Inl (KeySizeError 3)
   \<and> aesKey_Decrypt sample_env unusable_aesKey tampered_ciphertext = Failed ErrInvalidSignature
   \<and> aesKey_Decrypt sample_env sample_aesKey sample_ciphertext \<noteq> Failed ErrInvalidSignature"
proof -
  have l: "kzHeaderLength sample_env + 16 + 20 \<le> length tampered_ciphertext"
    by code_simp
  have l': "kzHeaderLength sample_env + 16 + 20 \<le> length sample_ciphertext"
    by code_simp
  have k: "aes_NewCipher (aesKey_key unusable_aesKey) = Inl (KeySizeError 3)"
    by code_simp
  have m: "drop (length tampered_ciphertext - 20) tampered_ciphertext
            \<noteq> hmac_sha1 sample_env (hmacKey_key (aesKey_hmacKey unusable_aesKey))
                 (take (length tampered_ciphertext - 20) tampered_ciphertext)"
    by code_simp
  have m': "drop (length sample_ciphertext - 20) sample_ciphertext
            = hmac_sha1 sample_env (hmacKey_key (aesKey_hmacKey sample_aesKey))
                 (take (length sample_ciphertext - 20) sample_ciphertext)"
    by code_simp
  from Decrypt_verifies_before_decrypting [OF l, of unusable_aesKey] m
  have a: "aesKey_Decrypt sample_env unusable_aesKey tampered_ciphertext = Failed ErrInvalidSignature"
    by blast
  from Decrypt_verifies_before_decrypting [OF l', of sample_aesKey] m'
  have b: "aesKey_Decrypt sample_env sample_aesKey sample_ciphertext \<noteq> Failed ErrInvalidSignature"
    by blast
  from l k a b show ?thesis by blast
qed

subsection \<open>CBC and padding\<close>

lemma length_xor_bytes [simp]: "length (xor_bytes a b) = min (length a) (length b)"
  by (simp add: xor_bytes_def)

lemma xor_bytes_cancel: "length a = length b \<Longrightarrow> xor_bytes a (xor_bytes a b) = b"
  unfolding xor_bytes_def
  by (induction a b rule: list_induct2) (simp_all add: xor.assoc [symmetric])

lemma length_cbc_encrypt_blocks:
  assumes "\<And>b. length b = 16 \<Longrightarrow> length (enc b) = 16"
  shows "length iv = 16 \<Longrightarrow> length src = 16 * n
         \<Longrightarrow> length (cbc_encrypt_blocks n enc iv src) = 16 * n"
proof (induction n arbitrary: iv src)
  case 0
  then show ?case by simp
next
  case (Suc n)
  have c: "length (enc (xor_bytes iv (take 16 src))) = 16"
    using Suc.prems by (intro assms) simp
  have "length (cbc_encrypt_blocks n enc (enc (xor_bytes iv (take 16 src))) (drop 16 src)) = 16 * n"
    using Suc.prems c by (intro Suc.IH) simp_all
  then show ?case using c by (simp add: Let_def)
qed

lemma cbc_decrypt_encrypt:
  assumes "\<And>b. length b = 16 \<Longrightarrow> length (enc b) = 16 \<and> dec (enc b) = b"
  shows "length iv = 16 \<Longrightarrow> length src = 16 * n
         \<Longrightarrow> cbc_decrypt_blocks n dec iv (cbc_encrypt_blocks n enc iv src) = src"
proof (induction n arbitrary: iv src)
  case 0
  then show ?case by simp
next
  case (Suc n)
  let ?b = "xor_bytes iv (take 16 src)"
  let ?c = "enc ?b"
  have lb: "length ?b = 16" using Suc.prems by simp
  have c: "length ?c = 16" and d: "dec ?c = ?b"
    using assms [OF lb] by simp_all
  have first: "xor_bytes iv (dec ?c) = take 16 src"
    using Suc.prems d by (simp add: xor_bytes_cancel)
  have rest: "cbc_decrypt_blocks n dec ?c (cbc_encrypt_blocks n enc ?c (drop 16 src)) = drop 16 src"
    using Suc.prems c by (intro Suc.IH) simp_all
  show ?case using c first rest by (simp add: Let_def)
qed

lemma pkcs5pad_16_length:
  "length (pkcs5pad p 16) = length p + (16 - length p mod 16)"
  by (simp add: pkcs5pad_def Let_def)

lemma pkcs5pad_16_aligned: "length (pkcs5pad p 16) mod 16 = 0"
  unfolding pkcs5pad_16_length by presburger

lemma pkcs5pad_16_blocks: "length (pkcs5pad p 16) = 16 * (length (pkcs5pad p 16) div 16)"
  using pkcs5pad_16_aligned [of p] by presburger

lemma unat_of_nat_byte: "n < 256 \<Longrightarrow> unat (of_nat n :: byte) = n"
  by (simp add: unat_of_nat)

lemma pkcs5unpad_pkcs5pad: "pkcs5unpad (pkcs5pad p 16) = Some p"
proof -
  define n where "n = 16 - length p mod 16"
  have n: "0 < n" "n \<le> 16" by (simp_all add: n_def)
  have pad: "pkcs5pad p 16 = p @ replicate n (of_nat n)"
    by (simp add: pkcs5pad_def Let_def n_def)
  have u: "unat (of_nat n :: byte) = n"
    using n by (intro unat_of_nat_byte) simp
  have l: "last (p @ replicate n (of_nat n :: byte)) = of_nat n"
    using n by simp
  show ?thesis
    unfolding pad using n u by (simp add: pkcs5unpad_def slice_def Let_def l del: last_append)
qed

subsection \<open>Symmetric encryption and the round trip\<close>

lemma length_ReadFull [simp]: "length (ReadFull rnd (make_bytes n)) = n"
  by (simp add: ReadFull_def make_bytes_def)

lemma aesKey_Encrypt_Returned:
  assumes key: "length (aesKey_key ak) = 16 \<or> length (aesKey_key ak) = 24 \<or> length (aesKey_key ak) = 32"
  shows "aesKey_Encrypt E ak rnd p =
           Returned (makeHeader E (aesKey_KeyID E ak)
             @ ReadFull rnd (make_bytes 16)
             @ cbc_encrypt_blocks (length (pkcs5pad p 16) div 16) (aes_encrypt E (aesKey_key ak))
                 (ReadFull rnd (make_bytes 16)) (pkcs5pad p 16)
             @ hmac_sha1 E (hmacKey_key (aesKey_hmacKey ak))
                 (makeHeader E (aesKey_KeyID E ak)
                  @ ReadFull rnd (make_bytes 16)
                  @ cbc_encrypt_blocks (length (pkcs5pad p 16) div 16) (aes_encrypt E (aesKey_key ak))
                      (ReadFull rnd (make_bytes 16)) (pkcs5pad p 16)))"
  using key pkcs5pad_16_aligned [of p]
  by (auto simp: aesKey_Encrypt_def aes_NewCipher_def CBCEncrypter_CryptBlocks_def
      hmacKey_Sign_def aes_BlockSize_def Let_def)

lemma length_ciphertext_blocks:
  assumes "aes_blocks_ok E k"
  shows "length (cbc_encrypt_blocks (length (pkcs5pad p 16) div 16) (aes_encrypt E k)
           (ReadFull rnd (make_bytes 16)) (pkcs5pad p 16)) = length (pkcs5pad p 16)"
proof -
  have "length (cbc_encrypt_blocks (length (pkcs5pad p 16) div 16) (aes_encrypt E k)
           (ReadFull rnd (make_bytes 16)) (pkcs5pad p 16)) = 16 * (length (pkcs5pad p 16) div 16)"
    using assms pkcs5pad_16_blocks [of p]
    by (intro length_cbc_encrypt_blocks) (simp_all add: aes_blocks_ok_def)
  then show ?thesis using pkcs5pad_16_blocks [of p] by simp
qed

lemma sample_Encrypt:
  "aesKey_Encrypt sample_env sample_aesKey sample_iv sample_plaintext = Returned sample_ciphertext"
  by code_simp

text \<open>
  C9. For every plaintext \<open>p\<close> and every key whose AES part the cipher accepts,
  \<^verbatim>\<open>Encrypt\<close> returns \<open>kzHeaderLength + 16 + len(pkcs5pad(p, 16)) + 20\<close> bytes;
  for the 11 bytes of \<^verbatim>\<open>hello world\<close> that is \<open>kzHeaderLength + 16 + 16 + 20\<close>.
\<close>

theorem Encrypt_output_length:
  assumes "length (aesKey_key ak) = 16 \<or> length (aesKey_key ak) = 24 \<or> length (aesKey_key ak) = 32"
    and "aes_blocks_ok E (aesKey_key ak)" and "hmac_size_ok E" and "header_size_ok E"
  shows "(\<exists>c. aesKey_Encrypt E ak rnd p = Returned c
             \<and> length c = kzHeaderLength E + 16 + length (pkcs5pad p 16) + 20)
       \<and> (\<exists>c. aesKey_Encrypt E ak rnd (bytes_of ''hello world'') = Returned c
             \<and> length c = kzHeaderLength E + 16 + 16 + 20)"
proof -
  have general: "\<exists>c. aesKey_Encrypt E ak rnd q = Returned c
             \<and> length c = kzHeaderLength E + 16 + length (pkcs5pad q 16) + 20" for q
    using assms(3,4) length_ciphertext_blocks [OF assms(2), of q rnd]
    by (simp add: aesKey_Encrypt_Returned [OF assms(1)] hmac_size_ok_def header_size_ok_def)
  have "length (pkcs5pad (bytes_of ''hello world'') 16) = 16"
    by (simp add: pkcs5pad_16_length bytes_of_def)
  with general [of "bytes_of ''hello world''"]
  have "\<exists>c. aesKey_Encrypt E ak rnd (bytes_of ''hello world'') = Returned c
             \<and> length c = kzHeaderLength E + 16 + 16 + 20"
    by simp
  with general [of p] show ?thesis by blast
qed

theorem Encrypt_output_length_witness:
  "length (aesKey_key sample_aesKey) = 16
   \<and> aes_blocks_ok sample_env (aesKey_key sample_aesKey)
   \<and> hmac_size_ok sample_env \<and> header_size_ok sample_env
   \<and> aesKey_Encrypt sample_env sample_aesKey sample_iv (bytes_of ''hello world'')
       = Returned sample_ciphertext
   \<and> length sample_ciphertext = kzHeaderLength sample_env + 16 + 16 + 20"
proof -
  have k: "length (aesKey_key sample_aesKey) = 16"
    by (simp add: sample_aesKey_def)
  then have k': "length (aesKey_key sample_aesKey) = 16 \<or> length (aesKey_key sample_aesKey) = 24
      \<or> length (aesKey_key sample_aesKey) = 32"
    by simp
  have e: "aesKey_Encrypt sample_env sample_aesKey sample_iv (bytes_of ''hello world'')
       = Returned sample_ciphertext"
    using sample_Encrypt by (simp add: sample_plaintext_def)
  from Encrypt_output_length [OF k' sample_aes_blocks_ok sample_hmac_size_ok sample_header_size_ok,
      of sample_iv sample_plaintext]
  have "length sample_ciphertext = kzHeaderLength sample_env + 16 + 16 + 20"
    unfolding e by simp
  with e show ?thesis
    using k sample_aes_blocks_ok sample_hmac_size_ok sample_header_size_ok by simp
qed

text \<open>
  C3. For every plaintext \<open>p\<close>, every key whose AES part the cipher accepts and
  every delivery \<open>rnd\<close> of the random source, \<^verbatim>\<open>Encrypt\<close> returns a ciphertext and
  \<^verbatim>\<open>Decrypt\<close> of that ciphertext returns \<open>p\<close>.
\<close>

theorem Decrypt_Encrypt_round_trip:
  assumes "length (aesKey_key ak) = 16 \<or> length (aesKey_key ak) = 24 \<or> length (aesKey_key ak) = 32"
    and "aes_blocks_ok E (aesKey_key ak)" and "hmac_size_ok E" and "header_size_ok E"
  shows "\<exists>c. aesKey_Encrypt E ak rnd p = Returned c \<and> aesKey_Decrypt E ak c = Returned p"
proof -
  let ?k = "aesKey_key ak"
  let ?h = "makeHeader E (aesKey_KeyID E ak)"
  let ?iv = "ReadFull rnd (make_bytes 16)"
  let ?n = "length (pkcs5pad p 16) div 16"
  let ?cb = "cbc_encrypt_blocks ?n (aes_encrypt E ?k) ?iv (pkcs5pad p 16)"
  let ?msg = "?h @ ?iv @ ?cb"
  let ?sig = "hmac_sha1 E (hmacKey_key (aesKey_hmacKey ak)) ?msg"
  let ?c = "?msg @ ?sig"
  have enc: "aesKey_Encrypt E ak rnd p = Returned ?c"
    using aesKey_Encrypt_Returned [OF assms(1), of E rnd p] by simp
  have lh: "length ?h = kzHeaderLength E" using assms(4) by (simp add: header_size_ok_def)
  have liv: "length ?iv = 16" by simp
  have lcb: "length ?cb = length (pkcs5pad p 16)"
    by (rule length_ciphertext_blocks [OF assms(2)])
  have lsig: "length ?sig = 20" using assms(3) by (simp add: hmac_size_ok_def)
  have lmsg: "length ?msg = kzHeaderLength E + 16 + length (pkcs5pad p 16)"
    using lh liv lcb by simp
  have t: "take (length ?c - 20) ?c = ?msg" using lsig by simp
  have d: "drop (length ?c - 20) ?c = ?sig" using lsig by simp
  have iv: "take 16 (drop (kzHeaderLength E) ?c) = ?iv"
    using lh liv by simp
  have pl: "take (length ?c - 20 - (kzHeaderLength E + 16)) (drop (kzHeaderLength E + 16) ?c) = ?cb"
    using lh liv lcb lsig by simp
  have long: "\<not> length ?c < kzHeaderLength E + 16 + 20"
    using lmsg lsig by simp
  have dec: "cbc_decrypt_blocks ?n (aes_decrypt E ?k) ?iv ?cb = pkcs5pad p 16"
    using assms(2) pkcs5pad_16_blocks [of p]
    by (intro cbc_decrypt_encrypt) (simp_all add: aes_blocks_ok_def)
  have crypt: "CBCDecrypter_CryptBlocks (aes_decrypt E ?k) ?iv ?cb = Some (pkcs5pad p 16)"
    using lcb dec pkcs5pad_16_aligned [of p]
    by (simp add: CBCDecrypter_CryptBlocks_def aes_BlockSize_def)
  have "aesKey_Decrypt E ak ?c = Returned p"
    unfolding aesKey_Decrypt_def aes_BlockSize_def hmacSigLength_def
    using long assms(1)
    by (simp only: t d iv pl hmacKey_Verify_eq Let_def split_conv if_False)
       (auto simp: aes_NewCipher_def crypt pkcs5unpad_pkcs5pad)
  with enc show ?thesis by blast
qed

theorem Decrypt_Encrypt_round_trip_witness:
  "length (aesKey_key sample_aesKey) = 16
   \<and> aes_blocks_ok sample_env (aesKey_key sample_aesKey)
   \<and> hmac_size_ok sample_env \<and> header_size_ok sample_env
   \<and> aesKey_Encrypt sample_env sample_aesKey sample_iv sample_plaintext = Returned sample_ciphertext
   \<and> aesKey_Decrypt sample_env sample_aesKey sample_ciphertext = Returned sample_plaintext"
proof -
  have k: "length (aesKey_key sample_aesKey) = 16"
    by (simp add: sample_aesKey_def)
  then have k': "length (aesKey_key sample_aesKey) = 16 \<or> length (aesKey_key sample_aesKey) = 24
      \<or> length (aesKey_key sample_aesKey) = 32"
    by simp
  from Decrypt_Encrypt_round_trip [OF k' sample_aes_blocks_ok sample_hmac_size_ok
      sample_header_size_ok, of sample_iv sample_plaintext]
  have "aesKey_Decrypt sample_env sample_aesKey sample_ciphertext = Returned sample_plaintext"
    unfolding sample_Encrypt by simp
  then show ?thesis
    using k sample_aes_blocks_ok sample_hmac_size_ok sample_header_size_ok sample_Encrypt
    by simp
qed

text \<open>
  C2 (amended). \<^verbatim>\<open>Decrypt\<close> has no padding error. For every input that passes the
  length check and carries the right tag, under a key the cipher accepts,
  \<^verbatim>\<open>Decrypt\<close> never returns an error; when the payload is a whole number of
  blocks it returns, with a nil error, what \<^verbatim>\<open>pkcs5unpad\<close> makes of the
  CBC-decrypted payload, well-formed padding or not, and panics only where
  \<^verbatim>\<open>pkcs5unpad\<close> does.
\<close>

theorem Decrypt_reports_no_padding_error:
  assumes "kzHeaderLength E + 16 + 20 \<le> length data"
    and "drop (length data - 20) data
           = hmac_sha1 E (hmacKey_key (aesKey_hmacKey ak)) (take (length data - 20) data)"
    and "length (aesKey_key ak) = 16 \<or> length (aesKey_key ak) = 24 \<or> length (aesKey_key ak) = 32"
  shows "(\<forall>e. aesKey_Decrypt E ak data \<noteq> Failed e)
       \<and> ((length data - 20 - (kzHeaderLength E + 16)) mod 16 = 0 \<longrightarrow>
            aesKey_Decrypt E ak data =
              (case pkcs5unpad (cbc_plaintext E ak data) of
                 None \<Rightarrow> Panic
               | Some unpadded \<Rightarrow> Returned unpadded))"
  using assms
  by (auto simp: aesKey_Decrypt_def aes_BlockSize_def hmacSigLength_def hmacKey_Verify_eq
      aes_NewCipher_def CBCDecrypter_CryptBlocks_def cbc_plaintext_def Let_def
      split: option.splits)

theorem Decrypt_reports_no_padding_error_witness:
  "kzHeaderLength sample_env + 16 + 20 \<le> length malformed_ciphertext
   \<and> drop (length malformed_ciphertext - 20) malformed_ciphertext
       = hmac_sha1 sample_env (hmacKey_key (aesKey_hmacKey sample_aesKey))
           (take (length malformed_ciphertext - 20) malformed_ciphertext)
   \<and> length (aesKey_key sample_aesKey) = 16
   \<and> (length malformed_ciphertext - 20 - (kzHeaderLength sample_env + 16)) mod 16 = 0
   \<and> pkcs5unpad (cbc_plaintext sample_env sample_aesKey malformed_ciphertext)
       = Some (bytes_of ''ABCDEFGHIJKLM'')
   \<and> aesKey_Decrypt sample_env sample_aesKey malformed_ciphertext
       = Returned (bytes_of ''ABCDEFGHIJKLM'')"
proof -
  have l: "kzHeaderLength sample_env + 16 + 20 \<le> length malformed_ciphertext"
    by code_simp
  have m: "drop (length malformed_ciphertext - 20) malformed_ciphertext
       = hmac_sha1 sample_env (hmacKey_key (aesKey_hmacKey sample_aesKey))
           (take (length malformed_ciphertext - 20) malformed_ciphertext)"
    by code_simp
  have k: "length (aesKey_key sample_aesKey) = 16"
    by code_simp
  then have k': "length (aesKey_key sample_aesKey) = 16 \<or> length (aesKey_key sample_aesKey) = 24
      \<or> length (aesKey_key sample_aesKey) = 32"
    by simp
  have a: "(length malformed_ciphertext - 20 - (kzHeaderLength sample_env + 16)) mod 16 = 0"
    by code_simp
  have u: "pkcs5unpad (cbc_plaintext sample_env sample_aesKey malformed_ciphertext)
       = Some (bytes_of ''ABCDEFGHIJKLM'')"
    by code_simp
  from Decrypt_reports_no_padding_error [OF l m k'] a u
  have "aesKey_Decrypt sample_env sample_aesKey malformed_ciphertext
       = Returned (bytes_of ''ABCDEFGHIJKLM'')"
    by simp
  with l m k a u show ?thesis by blast
qed

text \<open>
  The claim as it was stated fails on \<open>malformed_ciphertext\<close>: the decrypted
  block ends in 9, 7, 3, which is not well-formed padding, and \<^verbatim>\<open>Decrypt\<close>
  returns the first thirteen bytes with a nil error.
\<close>

theorem Decrypt_malformed_padding_counterexample:
  "cbc_plaintext sample_env sample_aesKey malformed_ciphertext
     = bytes_of ''ABCDEFGHIJKLM'' @ [9, 7, 3]
   \<and> \<not> pkcs5_padding_ok (cbc_plaintext sample_env sample_aesKey malformed_ciphertext) 16
   \<and> aesKey_Decrypt sample_env sample_aesKey malformed_ciphertext
       = Returned (bytes_of ''ABCDEFGHIJKLM'')"
  by code_simp

subsection \<open>Key identifiers\<close>

lemma unat_byte_of_word:
  "unat (ucast (drop_bit k (w :: 32 word)) :: byte) = (unat w div 2 ^ k) mod 256"
proof -
  have "unat (ucast (drop_bit k w) :: byte) = take_bit 8 (unat (drop_bit k w))"
    by (simp only: unsigned_ucast_eq) simp
  also have "\<dots> = take_bit 8 (drop_bit k (unat w))"
    by (simp only: unat_drop_bit_eq)
  also have "\<dots> = (unat w div 2 ^ k) mod 256"
    by (simp add: take_bit_eq_mod drop_bit_eq_div)
  finally show ?thesis .
qed

lemma four_bytes_value:
  fixes n :: nat
  shows "((n div 2 ^ 24 * 256 + n div 2 ^ 16 mod 256) * 256
          + n div 2 ^ 8 mod 256) * 256 + n mod 256 = n"
proof -
  define a where "a = n div 256"
  define b where "b = a div 256"
  define c where "c = b div 256"
  have a: "n div 2 ^ 8 = a" by (simp add: a_def)
  have b: "n div 2 ^ 16 = b" by (simp add: a_def b_def div_mult2_eq)
  have c: "n div 2 ^ 24 = c" by (simp add: a_def b_def c_def div_mult2_eq)
  have n: "n = a * 256 + n mod 256" by (simp add: a_def)
  have a': "a = b * 256 + a mod 256" by (simp add: b_def)
  have b': "b = c * 256 + b mod 256" by (simp add: c_def)
  show ?thesis
    unfolding a b c using n a' b' by simp
qed

lemma be32_big_endian: "SetBytes (be32 w) = uint w"
proof -
  have b: "unat w < 2 ^ 32" using unsigned_less [of w, where 'a = nat] by simp
  have u0: "unat (ucast w :: byte) = unat w mod 256"
    using unat_byte_of_word [of 0 w] by simp
  have t: "unat w div 16777216 mod 256 = unat w div 16777216"
    using b by simp
  have "foldl (\<lambda>a x. a * 256 + unat x) 0 (be32 w) = unat w"
    using four_bytes_value [of "unat w"]
    by (simp add: be32_def unat_byte_of_word u0 t)
  then show ?thesis
    by (simp add: SetBytes_def)
qed

text \<open>
  C8. For every symmetric key, \<^verbatim>\<open>KeyID()\<close> is the first four bytes of the SHA-1
  digest of the concatenation of the length of the AES key, the AES key and
  the MAC key; the length is written as four bytes which, read big-endian, are
  the length as a \<^verbatim>\<open>uint32\<close>.
\<close>

theorem aesKey_KeyID_digest:
  "aesKey_KeyID E ak =
     take 4 (sha1 E (be32 (uint32_len (aesKey_key ak)) @ aesKey_key ak
                     @ hmacKey_key (aesKey_hmacKey ak)))
   \<and> length (be32 (uint32_len (aesKey_key ak))) = 4
   \<and> SetBytes (be32 (uint32_len (aesKey_key ak))) = int (length (aesKey_key ak) mod 2 ^ 32)"
proof -
  have "uint (of_nat (length (aesKey_key ak)) :: 32 word) = int (length (aesKey_key ak) mod 2 ^ 32)"
    using unat_of_nat [of "length (aesKey_key ak)", where 'a = 32] by (simp add: uint_nat)
  then show ?thesis
    by (simp add: aesKey_KeyID_def sha1_New_def binary_Write_uint32_def hash_Write_def
        hash_Sum_def uint32_len_def Let_def be32_big_endian) (simp add: be32_def)
qed

text \<open>
  C6. For every DSA private key and every RSA private key, \<^verbatim>\<open>KeyID()\<close> is the
  \<^verbatim>\<open>KeyID()\<close> of the public key embedded in it.
\<close>

theorem private_KeyID_is_public_KeyID:
  "dsaKey_KeyID E dk = dsaPublicKey_KeyID E (dsaKey_publicKey dk)
   \<and> rsaKey_KeyID E rk = rsaPublicKey_KeyID E (rsaKey_publicKey rk)"
  by (simp add: dsaKey_KeyID_def rsaKey_KeyID_def)

subsection \<open>RSA decryption\<close>

lemma result_case_id:
  "(case x of Returned s \<Rightarrow> Returned s | Failed err \<Rightarrow> Failed err | Panic \<Rightarrow> Panic) = x"
  by (cases x) simp_all

text \<open>
  C10. \<^verbatim>\<open>Decrypt\<close> of the RSA private key slices the header off before anything
  else: for every input shorter than \<open>kzHeaderLength\<close> it panics and returns no
  error; for every other input its result is that of \<^verbatim>\<open>rsa.DecryptOAEP\<close> on the
  bytes after the header.
\<close>

theorem rsaKey_Decrypt_short_input_panics:
  "(length msg < kzHeaderLength E \<longrightarrow> rsaKey_Decrypt E rk msg = Panic)
   \<and> (kzHeaderLength E \<le> length msg \<longrightarrow>
        rsaKey_Decrypt E rk msg = rsa_DecryptOAEP E (rsaKey_key rk) (drop (kzHeaderLength E) msg))"
  by (auto simp: rsaKey_Decrypt_def slice_def result_case_id)

theorem rsaKey_Decrypt_short_input_panics_witness:
  "length [0, 96, 96, 96 :: byte] < kzHeaderLength sample_env
   \<and> rsaKey_Decrypt sample_env sample_rsaKey [0, 96, 96, 96] = Panic
   \<and> kzHeaderLength sample_env \<le> length [0, 96, 96, 96, 96, 7, 8 :: byte]
   \<and> rsaKey_Decrypt sample_env sample_rsaKey [0, 96, 96, 96, 96, 7, 8] = Returned [7, 8]
   \<and> rsaKey_Decrypt sample_env sample_rsaKey [0, 96, 96, 96, 96]
       = Failed (ExternalError ''decryption error'')"
  using rsaKey_Decrypt_short_input_panics [of "[0, 96, 96, 96]" sample_env sample_rsaKey]
    rsaKey_Decrypt_short_input_panics [of "[0, 96, 96, 96, 96, 7, 8]" sample_env sample_rsaKey]
    rsaKey_Decrypt_short_input_panics [of "[0, 96, 96, 96, 96]" sample_env sample_rsaKey]
  by simp

subsection \<open>The loaders\<close>

lemma range_Versions_first_failure:
  assumes "\<forall>kv\<in>set good. \<exists>key. body kv = Returned key"
  shows "(body bad = Failed e \<longrightarrow> range_Versions body (good @ bad # rest) keys = Failed e)
       \<and> (body bad = Panic \<longrightarrow> range_Versions body (good @ bad # rest) keys = Panic)"
  using assms
  by (induction good arbitrary: keys) (auto split: result.splits)

lemma range_Versions_Returned:
  "range_Versions body vs keys = Returned m \<Longrightarrow> \<forall>kv\<in>set vs. \<exists>key. body kv = Returned key"
  by (induction vs arbitrary: keys) (auto split: result.splits)

lemma range_Versions_dom:
  "range_Versions body vs keys = Returned m \<Longrightarrow> dom m = dom keys \<union> VersionNumber ` set vs"
  by (induction vs arbitrary: keys) (auto split: result.splits)

lemma decodeWeb64_if:
  "decodeWeb64 E x rest =
     (if decodes E x then rest (the (decodeWeb64String E x)) else Failed ErrBase64Decoding)"
  by (auto simp: decodeWeb64_def decodes_def)

lemma newAesKeys_body_outcome:
  "r (VersionNumber kv) = Inr s \<Longrightarrow> unmarshal_aes E s = Some j
   \<Longrightarrow> outcome_ok E ktAES s (newAesKeys_body E r kv)"
  by (auto simp: outcome_ok_def newAesKeys_body_def decodeWeb64_if)

lemma newHmacKeys_body_outcome:
  "r (VersionNumber kv) = Inr s \<Longrightarrow> unmarshal_hmac E s = Some j
   \<Longrightarrow> outcome_ok E ktHMAC_SHA1 s (newHmacKeys_body E r kv)"
  by (auto simp: outcome_ok_def newHmacKeys_body_def decodeWeb64_if)

lemma newDsaPublicKeys_body_outcome:
  "r (VersionNumber kv) = Inr s \<Longrightarrow> unmarshal_dsa_pub E s = Some j
   \<Longrightarrow> outcome_ok E ktDSA_PUB s (newDsaPublicKeys_body E r kv)"
  by (auto simp: outcome_ok_def newDsaPublicKeys_body_def decodeWeb64_if)

lemma newDsaKeys_body_outcome:
  "r (VersionNumber kv) = Inr s \<Longrightarrow> unmarshal_dsa E s = Some j
   \<Longrightarrow> outcome_ok E ktDSA_PRIV s (newDsaKeys_body E r kv)"
  by (auto simp: outcome_ok_def newDsaKeys_body_def decodeWeb64_if)

lemma newRsaPublicKeys_body_outcome:
  "r (VersionNumber kv) = Inr s \<Longrightarrow> unmarshal_rsa_pub E s = Some j
   \<Longrightarrow> outcome_ok E ktRSA_PUB s (newRsaPublicKeys_body E r kv)"
  by (auto simp: outcome_ok_def newRsaPublicKeys_body_def decodeWeb64_if)

lemma newRsaKeys_body_outcome:
  "r (VersionNumber kv) = Inr s \<Longrightarrow> unmarshal_rsa E s = Some j
   \<Longrightarrow> outcome_ok E ktRSA_PRIV s (newRsaKeys_body E r kv)"
  by (auto simp: outcome_ok_def newRsaKeys_body_def decodeWeb64_if)

text \<open>
  The private keys the loaders build carry the same public numbers in the
  private key and in the embedded public key, so the identifier of the
  embedded public key is the identifier of the key's own public half.
\<close>

lemma newDsaKeys_body_public_half:
  assumes "newDsaKeys_body E r kv = Returned (DsaKey dk)"
  shows "dsa_P (dsaPublicKey_key (dsaKey_publicKey dk)) = dsa_P (dsaKey_key dk)
       \<and> dsa_Q (dsaPublicKey_key (dsaKey_publicKey dk)) = dsa_Q (dsaKey_key dk)
       \<and> dsa_G (dsaPublicKey_key (dsaKey_publicKey dk)) = dsa_G (dsaKey_key dk)
       \<and> dsa_Y (dsaPublicKey_key (dsaKey_publicKey dk)) = dsa_Y (dsaKey_key dk)"
  using assms
  by (auto simp: newDsaKeys_body_def decodeWeb64_if split: sum.splits option.splits if_splits)

lemma newRsaKeys_body_public_half:
  assumes "newRsaKeys_body E r kv = Returned (RsaKey rk)"
  shows "rsa_N (rsaPublicKey_key (rsaKey_publicKey rk)) = rsa_N (rsaKey_key rk)
       \<and> rsa_E (rsaPublicKey_key (rsaKey_publicKey rk)) = rsa_E (rsaKey_key rk)"
  using assms
  by (auto simp: newRsaKeys_body_def decodeWeb64_if split: sum.splits option.splits if_splits)

lemma loader_range_Versions:
  "loader E t r km = range_Versions (loader_body E t r) (Versions km) Map.empty"
  by (cases t)
     (simp_all add: newAesKeys_def newHmacKeys_def newDsaPublicKeys_def newDsaKeys_def
        newRsaPublicKeys_def newRsaKeys_def)

lemma loader_body_outcome:
  assumes "r (VersionNumber kv) = Inr s" and "record_decoded E t s"
  shows "outcome_ok E t s (loader_body E t r kv)"
  using assms
  by (cases t)
     (auto intro: newAesKeys_body_outcome newHmacKeys_body_outcome newDsaPublicKeys_body_outcome
        newDsaKeys_body_outcome newRsaPublicKeys_body_outcome newRsaKeys_body_outcome)

lemma loader_body_reader_error:
  assumes "r (VersionNumber kv) = Inl err"
  shows "loader_body E t r kv = Failed (if t = ktAES then ErrBase64Decoding else err)"
  using assms
  by (cases t)
     (simp_all add: newAesKeys_body_def newHmacKeys_body_def newDsaPublicKeys_body_def
        newDsaKeys_body_def newRsaPublicKeys_body_def newRsaKeys_body_def)

text \<open>
  A record that is the JSON literal \<^verbatim>\<open>null\<close> leaves the record pointer nil, and the
  size check that follows dereferences it: the loader panics, whatever the
  other versions are.
\<close>

lemma loader_body_null_record:
  assumes "r (VersionNumber kv) = Inr s" and "\<not> record_decoded E t s"
  shows "loader_body E t r kv = Panic"
  using assms
  by (cases t)
     (simp_all add: newAesKeys_body_def newHmacKeys_body_def newDsaPublicKeys_body_def
        newDsaKeys_body_def newRsaPublicKeys_body_def newRsaKeys_body_def)

lemma loader_first_failure:
  assumes "\<forall>kv\<in>set good. \<exists>key. loader_body E t r kv = Returned key"
    and "loader_body E t r bad = Failed e"
  shows "loader E t r \<lparr>Versions = good @ bad # rest\<rparr> = Failed e"
  using range_Versions_first_failure [OF assms(1), of bad e rest Map.empty] assms(2)
  by (simp add: loader_range_Versions)

lemma loader_null_record_panics:
  assumes "\<forall>kv\<in>set good. \<exists>key. loader_body E t r kv = Returned key"
    and "r (VersionNumber bad) = Inr s" and "\<not> record_decoded E t s"
  shows "loader E t r \<lparr>Versions = good @ bad # rest\<rparr> = Panic"
proof -
  have "loader_body E t r bad = Panic"
    using assms(2,3) by (rule loader_body_null_record)
  with range_Versions_first_failure [OF assms(1), of bad _ rest Map.empty]
  show ?thesis by (simp add: loader_range_Versions)
qed

lemma sample_loads_version_1:
  "newHmacKeys_body sample_env sample_reader \<lparr>VersionNumber = 1\<rparr>
     = Returned (HmacKey_of \<lparr>hmacKey_key = bytes_of ''QUJD''\<rparr>)"
  by (simp add: newHmacKeys_body_def sample_reader_def sample_unmarshal_hmac_def
      sample_isAcceptableSize_def decodeWeb64_def)

lemma sample_null_record_panics:
  "newHmacKeys sample_env sample_reader
     \<lparr>Versions = [\<lparr>VersionNumber = 1\<rparr>, \<lparr>VersionNumber = 4\<rparr>, \<lparr>VersionNumber = 2\<rparr>]\<rparr> = Panic"
  by (simp add: newHmacKeys_def sample_loads_version_1)
     (simp add: newHmacKeys_body_def sample_reader_def sample_unmarshal_hmac_def)

text \<open>
  C5 (amended). Take any of the six loaders and any version list, and let
  \<open>bad\<close> be the first version that does not load: all versions before it
  load. If the body of the loader fails on \<open>bad\<close> with an error, the loader
  returns that error and no map, whatever follows in the list. In particular,
  if the record of \<open>bad\<close> was fetched and decoded and fails size validation or
  base64 decoding, the error is \<open>ErrInvalidKeySize\<close> or \<open>ErrBase64Decoding\<close>:
  the former when only sizes fail, the latter when only strings fail. If
  the record of \<open>bad\<close> cannot be fetched, the reader's error is returned as it
  is, except by the AES loader, which returns \<open>ErrBase64Decoding\<close>. And a
  loader that returns a map has loaded every version of the list: the keys of
  the map are the version numbers of the list.
\<close>

theorem loaders_fail_fast:
  assumes "\<forall>kv\<in>set good. \<exists>key. loader_body E t r kv = Returned key"
  shows "(\<forall>e. loader_body E t r bad = Failed e \<longrightarrow>
            loader E t r \<lparr>Versions = good @ bad # rest\<rparr> = Failed e)
       \<and> (\<forall>s. r (VersionNumber bad) = Inr s \<and> record_decoded E t s
               \<and> (\<not> sizes_ok E t s \<or> \<not> strings_ok E t s) \<longrightarrow>
            (\<exists>e. loader E t r \<lparr>Versions = good @ bad # rest\<rparr> = Failed e
                \<and> (e = ErrInvalidKeySize \<or> e = ErrBase64Decoding)
                \<and> (strings_ok E t s \<longrightarrow> e = ErrInvalidKeySize)
                \<and> (sizes_ok E t s \<longrightarrow> e = ErrBase64Decoding)))
       \<and> (\<forall>err. r (VersionNumber bad) = Inl err \<longrightarrow>
            loader E t r \<lparr>Versions = good @ bad # rest\<rparr>
              = Failed (if t = ktAES then ErrBase64Decoding else err))
       \<and> (\<forall>vs m. loader E t r \<lparr>Versions = vs\<rparr> = Returned m \<longrightarrow>
            (\<forall>kv\<in>set vs. \<exists>key. loader_body E t r kv = Returned key)
            \<and> dom m = VersionNumber ` set vs)"
proof (intro conjI allI impI)
  fix e assume "loader_body E t r bad = Failed e"
  then show "loader E t r \<lparr>Versions = good @ bad # rest\<rparr> = Failed e"
    by (rule loader_first_failure [OF assms])
next
  fix s
  assume a: "r (VersionNumber bad) = Inr s \<and> record_decoded E t s
               \<and> (\<not> sizes_ok E t s \<or> \<not> strings_ok E t s)"
  then have o: "outcome_ok E t s (loader_body E t r bad)"
    by (intro loader_body_outcome) simp_all
  from a o obtain e where e: "loader_body E t r bad = Failed e"
    and k: "e = ErrInvalidKeySize \<or> e = ErrBase64Decoding"
      "strings_ok E t s \<longrightarrow> e = ErrInvalidKeySize"
      "sizes_ok E t s \<longrightarrow> e = ErrBase64Decoding"
    unfolding outcome_ok_def by auto
  from loader_first_failure [OF assms e, of rest] k
  show "\<exists>e. loader E t r \<lparr>Versions = good @ bad # rest\<rparr> = Failed e
                \<and> (e = ErrInvalidKeySize \<or> e = ErrBase64Decoding)
                \<and> (strings_ok E t s \<longrightarrow> e = ErrInvalidKeySize)
                \<and> (sizes_ok E t s \<longrightarrow> e = ErrBase64Decoding)"
    by blast
next
  fix err assume "r (VersionNumber bad) = Inl err"
  then have "loader_body E t r bad = Failed (if t = ktAES then ErrBase64Decoding else err)"
    by (rule loader_body_reader_error)
  then show "loader E t r \<lparr>Versions = good @ bad # rest\<rparr>
              = Failed (if t = ktAES then ErrBase64Decoding else err)"
    by (rule loader_first_failure [OF assms])
next
  fix vs m assume "loader E t r \<lparr>Versions = vs\<rparr> = Returned m"
  then have r: "range_Versions (loader_body E t r) vs Map.empty = Returned m"
    by (simp add: loader_range_Versions)
  show "\<forall>kv\<in>set vs. \<exists>key. loader_body E t r kv = Returned key"
    by (rule range_Versions_Returned [OF r])
  show "dom m = VersionNumber ` set vs"
    using range_Versions_dom [OF r] by simp
qed

theorem loaders_fail_fast_witness:
  "loader_body sample_env ktHMAC_SHA1 sample_reader \<lparr>VersionNumber = 1\<rparr>
     = Returned (HmacKey_of \<lparr>hmacKey_key = bytes_of ''QUJD''\<rparr>)
   \<and> sample_reader 2 = Inr ''{hmacKeyString:QUJD,size:7}''
   \<and> record_decoded sample_env ktHMAC_SHA1 ''{hmacKeyString:QUJD,size:7}''
   \<and> \<not> sizes_ok sample_env ktHMAC_SHA1 ''{hmacKeyString:QUJD,size:7}''
   \<and> newHmacKeys sample_env sample_reader
        \<lparr>Versions = [\<lparr>VersionNumber = 1\<rparr>, \<lparr>VersionNumber = 2\<rparr>, \<lparr>VersionNumber = 3\<rparr>]\<rparr>
       = Failed ErrInvalidKeySize"
proof -
  have good: "\<forall>kv\<in>set [\<lparr>VersionNumber = 1\<rparr>].
      \<exists>key. loader_body sample_env ktHMAC_SHA1 sample_reader kv = Returned key"
    by (simp add: sample_loads_version_1)
  have fetched: "sample_reader 2 = Inr ''{hmacKeyString:QUJD,size:7}''"
    by (simp add: sample_reader_def)
  have decoded: "record_decoded sample_env ktHMAC_SHA1 ''{hmacKeyString:QUJD,size:7}''"
    by (simp add: sample_unmarshal_hmac_def)
  have size: "\<not> sizes_ok sample_env ktHMAC_SHA1 ''{hmacKeyString:QUJD,size:7}''"
    by (simp add: sample_unmarshal_hmac_def sample_isAcceptableSize_def)
  have strings: "strings_ok sample_env ktHMAC_SHA1 ''{hmacKeyString:QUJD,size:7}''"
    by (simp add: sample_unmarshal_hmac_def decodes_def)
  from loaders_fail_fast [OF good, of "\<lparr>VersionNumber = 2\<rparr>" "[\<lparr>VersionNumber = 3\<rparr>]"]
    fetched decoded size strings
  have "newHmacKeys sample_env sample_reader
        \<lparr>Versions = [\<lparr>VersionNumber = 1\<rparr>, \<lparr>VersionNumber = 2\<rparr>, \<lparr>VersionNumber = 3\<rparr>]\<rparr>
       = Failed ErrInvalidKeySize"
    by auto
  with fetched decoded size show ?thesis by (simp add: sample_loads_version_1)
qed

text \<open>
  The claim as it was stated fails where an earlier version cannot be
  fetched: the record of version 2 fails size validation, version 5 has no
  record, and the HMAC loader returns the reader's error, which is neither
  \<open>ErrInvalidKeySize\<close> nor \<open>ErrBase64Decoding\<close>.
\<close>

theorem loader_error_kind_counterexample:
  "sample_reader 2 = Inr ''{hmacKeyString:QUJD,size:7}''
   \<and> record_decoded sample_env ktHMAC_SHA1 ''{hmacKeyString:QUJD,size:7}''
   \<and> \<not> sizes_ok sample_env ktHMAC_SHA1 ''{hmacKeyString:QUJD,size:7}''
   \<and> newHmacKeys sample_env sample_reader \<lparr>Versions = [\<lparr>VersionNumber = 5\<rparr>, \<lparr>VersionNumber = 2\<rparr>]\<rparr>
       = Failed (ExternalError ''no such version'')
   \<and> ExternalError ''no such version'' \<noteq> ErrInvalidKeySize
   \<and> ExternalError ''no such version'' \<noteq> ErrBase64Decoding"
  by (simp add: newHmacKeys_def newHmacKeys_body_def sample_reader_def sample_unmarshal_hmac_def
      sample_isAcceptableSize_def)


end
